theory Spec2Isabelle
  imports Complex_Main "HOL-Library.Char_ord" "HOL-Library.List_Lexorder"
    "HOL-Library.Code_Target_Nat"
begin

section \<open>Data model\<close>

text \<open>
  The team-composition search of the repository: chromosomes (\<open>src/lib/genetic/chromosome.ts\<close>),
  the genetic operators (\<open>src/lib/genetic/operators.ts\<close>), the fitness function
  (\<open>src/lib/genetic/fitness.ts\<close>) and the type-effectiveness calculator
  (\<open>src/lib/coverage/typeChart.ts\<close> and its second version in \<open>src/unnamed/part_002\<close>).

  Conventions of the embedding.
  \<^item> A team is a JavaScript array, an \<open>entry list\<close>: an index below the length holds a
    string (\<open>Str s\<close>), holds \<open>undefined\<close> (\<open>Undefined\<close>) or is an empty slot (\<open>Hole\<close>).
    The teams the program builds hold strings only: they are \<open>dense\<close>. A write past the end
    of an array extends it and leaves empty slots behind; a copy \<open>[...xs]\<close> turns an empty
    slot into \<open>undefined\<close>; \<open>xs.map(f)\<close> skips an empty slot and calls \<open>f\<close> on
    \<open>undefined\<close>. Reading an index gives a string or \<open>undefined\<close>, here a
    \<open>string option\<close>.
  \<^item> A \<open>TypeError\<close> (a method called on \<open>undefined\<close>) is the value \<open>Inl TypeError\<close>.
  \<^item> \<open>Math.random()\<close> is an explicit source of numbers of the interval \<open>[0, 1)\<close>, threaded
    through the operators: each operator returns the source that remains.
  \<^item> A fitness value stored in a chromosome is a finite number, modelled as a real; the
    numbers returned by the scoring functions are of type \<open>jsnum\<close>, which has \<open>NaN\<close> and the
    infinities. The rounding of IEEE doubles is modelled where a result depends on it, in
    the type-effectiveness calculator, whose numbers are of type \<open>double\<close>.
  \<^item> A character of a string is a UTF-16 code unit below 256, so that the order of the
    characters is the order of the code units.
\<close>

datatype tournament_mode = GBL | PlayPokemon

datatype error = TypeError

datatype entry = Str string | Undefined | Hole

record chromosome =
  team :: "entry list"
  anchors :: "nat list"
  fitness :: real

definition dense :: "entry list \<Rightarrow> bool" where
  "dense xs = (Undefined \<notin> set xs \<and> Hole \<notin> set xs)"

fun js_read :: "entry \<Rightarrow> string option" where
  \<comment> \<open>the value read from an index: a string, or \<open>undefined\<close>\<close>
  "js_read (Str s) = Some s"
| "js_read Undefined = None"
| "js_read Hole = None"

definition js_get :: "entry list \<Rightarrow> nat \<Rightarrow> string option" where
  \<comment> \<open>\<open>xs[i]\<close>\<close>
  "js_get xs i = (if i < length xs then js_read (xs ! i) else None)"

definition js_set :: "entry list \<Rightarrow> nat \<Rightarrow> string \<Rightarrow> entry list" where
  \<comment> \<open>\<open>xs[i] = v\<close>: a write past the end extends the array and leaves empty slots\<close>
  "js_set xs i v =
     (if i < length xs then xs[i := Str v]
      else xs @ replicate (i - length xs) Hole @ [Str v])"

definition js_spread :: "entry list \<Rightarrow> entry list" where
  \<comment> \<open>\<open>[...xs]\<close>: the iteration reads every index, an empty slot as \<open>undefined\<close>\<close>
  "js_spread xs = map (\<lambda>e. if e = Hole then Undefined else e) xs"

subsection \<open>The random source\<close>

typedef rand01 = "{x::real. 0 \<le> x \<and> x < 1}"
  by (rule exI [of _ 0]) simp

setup_lifting type_definition_rand01

lift_definition rand_zero :: rand01 is "0"
  by simp

lift_definition rand_half :: rand01 is "1 / 2"
  by simp

type_synonym rng = "nat \<Rightarrow> rand01"

definition Math_random :: "rng \<Rightarrow> real \<times> rng" where
  "Math_random g = (Rep_rand01 (g 0), \<lambda>n. g (Suc n))"

definition random_index :: "real \<Rightarrow> nat \<Rightarrow> nat" where
  \<comment> \<open>\<open>Math.floor(r * n)\<close> for a drawn \<open>r\<close>\<close>
  "random_index r n = nat \<lfloor>r * real n\<rfloor>"

section \<open>src/lib/data/pokemon.ts\<close>

definition getBaseSpecies :: "string \<Rightarrow> string" where
  \<comment> \<open>\<open>speciesId.split('_')[0]\<close>\<close>
  "getBaseSpecies speciesId = takeWhile (\<lambda>c. c \<noteq> CHR ''_'') speciesId"

fun mapBaseSpecies :: "entry list \<Rightarrow> error + string option list" where
  \<comment> \<open>\<open>team.map(getBaseSpecies)\<close>: \<open>getBaseSpecies(undefined)\<close> throws; an empty slot is
      skipped and stays empty (\<open>None\<close> in the result)\<close>
  "mapBaseSpecies [] = Inr []"
| "mapBaseSpecies (Str s # rest) =
     (case mapBaseSpecies rest of
        Inl e \<Rightarrow> Inl e
      | Inr bases \<Rightarrow> Inr (Some (getBaseSpecies s) # bases))"
| "mapBaseSpecies (Undefined # rest) = Inl TypeError"
| "mapBaseSpecies (Hole # rest) =
     (case mapBaseSpecies rest of
        Inl e \<Rightarrow> Inl e
      | Inr bases \<Rightarrow> Inr (None # bases))"

definition validateTeamUniqueness :: "entry list \<Rightarrow> error + bool" where
  \<comment> \<open>the \<open>Set\<close> built from the mapped array holds \<open>undefined\<close> for its empty slots\<close>
  "validateTeamUniqueness t =
     (case mapBaseSpecies t of
        Inl e \<Rightarrow> Inl e
      | Inr baseSpecies \<Rightarrow>
          (let uniqueBase = remdups baseSpecies
           in Inr (length uniqueBase = length baseSpecies)))"

section \<open>src/lib/genetic/chromosome.ts\<close>

definition createChromosome :: "entry list \<Rightarrow> nat list option \<Rightarrow> chromosome" where
  "createChromosome t a =
     \<lparr>team = t, anchors = (case a of None \<Rightarrow> [] | Some ixs \<Rightarrow> ixs), fitness = 0\<rparr>"

definition teamSizeOf :: "tournament_mode \<Rightarrow> nat" where
  \<comment> \<open>\<open>mode === 'GBL' ? 3 : 6\<close>\<close>
  "teamSizeOf mode = (if mode = GBL then 3 else 6)"

definition isValidChromosome :: "chromosome \<Rightarrow> tournament_mode \<Rightarrow> error + bool" where
  "isValidChromosome chromosome mode =
     (let expectedSize = teamSizeOf mode
      in if length (team chromosome) \<noteq> expectedSize then Inr False
         else
           (case validateTeamUniqueness (team chromosome) of
              Inl e \<Rightarrow> Inl e
            | Inr unique \<Rightarrow> if \<not> unique then Inr False else Inr True))"

definition cloneChromosome :: "chromosome \<Rightarrow> chromosome" where
  "cloneChromosome chromosome =
     \<lparr>team = js_spread (team chromosome), anchors = anchors chromosome,
      fitness = fitness chromosome\<rparr>"

definition isAnchorSlot :: "nat \<Rightarrow> chromosome \<Rightarrow> bool" where
  "isAnchorSlot index chromosome = (index \<in> set (anchors chromosome))"

definition getMutableSlots :: "chromosome \<Rightarrow> nat \<Rightarrow> nat list" where
  "getMutableSlots chromosome teamSize =
     filter (\<lambda>i. \<not> isAnchorSlot i chromosome) [0..<teamSize]"

definition sortByFitness :: "chromosome list \<Rightarrow> chromosome list" where
  \<comment> \<open>\<open>[...population].sort((a, b) => b.fitness - a.fitness)\<close>: a stable sort of a copy,
      descending by fitness\<close>
  "sortByFitness population = sort_key (\<lambda>c. - fitness c) population"

definition getBestChromosome :: "chromosome list \<Rightarrow> chromosome option" where
  \<comment> \<open>\<open>sortByFitness(population)[0]\<close>, \<open>undefined\<close> for an empty population\<close>
  "getBestChromosome population =
     (let sorted = sortByFitness population
      in if 0 < length sorted then Some (sorted ! 0) else None)"

definition getWorstChromosome :: "chromosome list \<Rightarrow> chromosome option" where
  \<comment> \<open>\<open>sortByFitness(population)[population.length - 1]\<close>\<close>
  "getWorstChromosome population =
     (let sorted = sortByFitness population
      in if 0 < length population then Some (sorted ! (length population - 1)) else None)"


section \<open>src/lib/genetic/operators.ts\<close>

fun addBaseSpecies ::
  "(nat \<Rightarrow> bool) \<Rightarrow> entry list \<Rightarrow> nat list \<Rightarrow> string set \<Rightarrow> error + string set" where
  \<comment> \<open>\<open>for (i of slots) if (cond(i)) used.add(getBaseSpecies(team[i]))\<close>; \<open>getBaseSpecies\<close>
      of \<open>undefined\<close> throws\<close>
  "addBaseSpecies cond t [] used = Inr used"
| "addBaseSpecies cond t (i # slots) used =
     (if cond i then
        (case js_get t i of
           None \<Rightarrow> Inl TypeError
         | Some s \<Rightarrow> addBaseSpecies cond t slots (insert (getBaseSpecies s) used))
      else addBaseSpecies cond t slots used)"

fun copyFromParent2 ::
  "nat \<Rightarrow> entry list \<Rightarrow> nat list \<Rightarrow> entry list \<Rightarrow> string set \<Rightarrow> error + entry list" where
  \<comment> \<open>the third loop of \<open>crossover\<close>: parent 2's entries at or after the cut, skipping a
      base species already used\<close>
  "copyFromParent2 crossoverPoint p2team [] childTeam used = Inr childTeam"
| "copyFromParent2 crossoverPoint p2team (slot # slots) childTeam used =
     (if slot \<ge> crossoverPoint then
        (case js_get p2team slot of
           None \<Rightarrow> Inl TypeError
         | Some parent2Species \<Rightarrow>
             (let parent2Base = getBaseSpecies parent2Species
              in if parent2Base \<notin> used
                 then copyFromParent2 crossoverPoint p2team slots
                        (js_set childTeam slot parent2Species) (insert parent2Base used)
                 else copyFromParent2 crossoverPoint p2team slots childTeam used))
      else copyFromParent2 crossoverPoint p2team slots childTeam used)"

definition assembleChild ::
  "chromosome \<Rightarrow> chromosome \<Rightarrow> nat \<Rightarrow> nat list \<Rightarrow> nat \<Rightarrow> error + entry list" where
  \<comment> \<open>lines 47 to 75 of \<open>crossover\<close>: the team of the child once the three passes over the slots have run\<close>
  "assembleChild child parent2 teamSize mutableSlots crossoverPoint =
     (case addBaseSpecies (\<lambda>i. isAnchorSlot i child) (team child) [0..<teamSize] {} of
        Inl e \<Rightarrow> Inl e
      | Inr used1 \<Rightarrow>
          (case addBaseSpecies (\<lambda>slot. slot < crossoverPoint) (team child) mutableSlots used1 of
             Inl e \<Rightarrow> Inl e
           | Inr used2 \<Rightarrow>
               copyFromParent2 crossoverPoint (team parent2) mutableSlots (team child) used2))"

definition crossoverAt ::
  "chromosome \<Rightarrow> chromosome \<Rightarrow> tournament_mode \<Rightarrow> nat \<Rightarrow> error + chromosome" where
  \<comment> \<open>\<open>crossover\<close> from line 47 on, the crossover point being chosen\<close>
  "crossoverAt parent1 parent2 mode crossoverPoint =
     (let teamSize = teamSizeOf mode;
          child = cloneChromosome parent1;
          mutableSlots = getMutableSlots child teamSize
      in case assembleChild child parent2 teamSize mutableSlots crossoverPoint of
           Inl e \<Rightarrow> Inl e
         | Inr t \<Rightarrow>
             (case validateTeamUniqueness t of
                Inl e \<Rightarrow> Inl e
              | Inr unique \<Rightarrow>
                  if \<not> unique then Inr (cloneChromosome parent1)
                  else Inr (child\<lparr>team := t\<rparr>)))"

definition crossover ::
  "chromosome \<Rightarrow> chromosome \<Rightarrow> tournament_mode \<Rightarrow> rng \<Rightarrow> (error + chromosome) \<times> rng" where
  "crossover parent1 parent2 mode g =
     (let teamSize = teamSizeOf mode;
          child = cloneChromosome parent1;
          mutableSlots = getMutableSlots child teamSize
      in if length mutableSlots = 0 then (Inr child, g)
         else
           (let (r, g') = Math_random g;
                crossoverPoint = mutableSlots ! random_index r (length mutableSlots)
            in (crossoverAt parent1 parent2 mode crossoverPoint, g')))"

definition mutate ::
  "chromosome \<Rightarrow> string list \<Rightarrow> real \<Rightarrow> tournament_mode \<Rightarrow> rng \<Rightarrow> (error + chromosome) \<times> rng" where
  "mutate chromosome pokemonPool mutationRate mode g =
     (let (r0, g0) = Math_random g
      in if r0 > mutationRate then (Inr chromosome, g0)
         else
           (let teamSize = teamSizeOf mode;
                mutated = cloneChromosome chromosome;
                mutableSlots = getMutableSlots mutated teamSize
            in if length mutableSlots = 0 then (Inr mutated, g0)
               else
                 (let (r1, g1) = Math_random g0;
                      slotToMutate = mutableSlots ! random_index r1 (length mutableSlots)
                  in case mapBaseSpecies (team mutated) of
                       Inl e \<Rightarrow> (Inl e, g1)
                     | Inr bases \<Rightarrow>
                         (let usedBaseSpecies = set bases;
                              availablePool =
                                filter (\<lambda>s. Some (getBaseSpecies s) \<notin> usedBaseSpecies)
                                  pokemonPool
                          in if length availablePool = 0 then (Inr mutated, g1)
                             else
                               (let (r2, g2) = Math_random g1;
                                    newSpecies =
                                      availablePool ! random_index r2 (length availablePool);
                                    mutated' =
                                      mutated\<lparr>team := js_set (team mutated) slotToMutate newSpecies\<rparr>
                                in case validateTeamUniqueness (team mutated') of
                                     Inl e \<Rightarrow> (Inl e, g2)
                                   | Inr unique \<Rightarrow>
                                       if \<not> unique then (Inr chromosome, g2)
                                       else (Inr mutated', g2))))))"

fun drawTournament :: "chromosome list \<Rightarrow> nat \<Rightarrow> rng \<Rightarrow> chromosome option list \<times> rng" where
  \<comment> \<open>the \<open>for\<close> loop of \<open>tournamentSelection\<close>; \<open>population[randomIndex]\<close> is
      \<open>undefined\<close> when the population is empty\<close>
  "drawTournament population 0 g = ([], g)"
| "drawTournament population (Suc k) g =
     (let (r, g') = Math_random g;
          randomIndex = random_index r (length population);
          drawn = (if randomIndex < length population then Some (population ! randomIndex)
                   else None);
          (rest, g'') = drawTournament population k g'
      in (drawn # rest, g''))"

fun reduceBest :: "chromosome option \<Rightarrow> chromosome option list \<Rightarrow> error + chromosome option" where
  \<comment> \<open>\<open>reduce((best, current) => current.fitness > best.fitness ? current : best)\<close>\<close>
  "reduceBest best [] = Inr best"
| "reduceBest best (current # rest) =
     (case current of
        None \<Rightarrow> Inl TypeError
      | Some c \<Rightarrow>
          (case best of
             None \<Rightarrow> Inl TypeError
           | Some b \<Rightarrow> reduceBest (if fitness c > fitness b then Some c else Some b) rest))"

definition tournamentSelection ::
  "chromosome list \<Rightarrow> nat \<Rightarrow> rng \<Rightarrow> (error + chromosome option) \<times> rng" where
  \<comment> \<open>\<open>reduce\<close> of an empty array without an initial value throws\<close>
  "tournamentSelection population tournamentSize g =
     (let (tournament, g') = drawTournament population tournamentSize g
      in (case tournament of
            [] \<Rightarrow> Inl TypeError
          | first # rest \<Rightarrow> reduceBest first rest, g'))"

definition js_slice0 :: "'a list \<Rightarrow> int \<Rightarrow> 'a list" where
  \<comment> \<open>\<open>xs.slice(0, e)\<close> for an integer \<open>e\<close>: a negative \<open>e\<close> counts from the end\<close>
  "js_slice0 xs e = take (nat (if e < 0 then int (length xs) + e else e)) xs"

definition selectElites :: "chromosome list \<Rightarrow> int \<Rightarrow> chromosome list" where
  "selectElites population count =
     (let sorted = sort_key (\<lambda>c. - fitness c) population
      in map cloneChromosome (js_slice0 sorted count))"

record generation_options =
  eliteCount :: "int option"
  crossoverRate :: "real option"
  mutationRate :: "real option"

function fillGeneration ::
  "chromosome list \<Rightarrow> string list \<Rightarrow> tournament_mode \<Rightarrow> real \<Rightarrow> real \<Rightarrow> chromosome list \<Rightarrow> rng
     \<Rightarrow> error + chromosome list" where
  \<comment> \<open>the \<open>while\<close> loop of \<open>createNextGeneration\<close>. A tournament of three returns a
      chromosome or throws; \<open>cloneChromosome(undefined)\<close>, with which both branches
      start, would throw\<close>
  "fillGeneration population pokemonPool mode cRate mRate nextGeneration g =
     (if length nextGeneration < length population then
        (case tournamentSelection population 3 g of
           (Inl e, g1) \<Rightarrow> Inl e
         | (Inr None, g1) \<Rightarrow> Inl TypeError
         | (Inr (Some parent1), g1) \<Rightarrow>
             (case tournamentSelection population 3 g1 of
                (Inl e, g2) \<Rightarrow> Inl e
              | (Inr None, g2) \<Rightarrow> Inl TypeError
              | (Inr (Some parent2), g2) \<Rightarrow>
                  (let (r, g3) = Math_random g2;
                       (crossed, g4) =
                         (if r < cRate then crossover parent1 parent2 mode g3
                          else (Inr (cloneChromosome parent1), g3))
                   in case crossed of
                        Inl e \<Rightarrow> Inl e
                      | Inr child \<Rightarrow>
                          (case mutate child pokemonPool mRate mode g4 of
                             (Inl e, g5) \<Rightarrow> Inl e
                           | (Inr child', g5) \<Rightarrow>
                               fillGeneration population pokemonPool mode cRate mRate
                                 (nextGeneration @ [child']) g5))))
      else Inr nextGeneration)"
  by pat_completeness auto
termination
  by (relation "measure (\<lambda>(population, pokemonPool, mode, cRate, mRate, nextGeneration, g).
        length population - length nextGeneration)") auto

declare fillGeneration.simps [simp del]

definition createNextGeneration ::
  "chromosome list \<Rightarrow> string list \<Rightarrow> tournament_mode \<Rightarrow> generation_options \<Rightarrow> rng
     \<Rightarrow> error + chromosome list" where
  "createNextGeneration population pokemonPool mode options g =
     (let count = (case eliteCount options of
                     None \<Rightarrow> \<lceil>real (length population) * 0.1\<rceil>
                   | Some e \<Rightarrow> e);
          cRate = (case crossoverRate options of None \<Rightarrow> 0.8 | Some x \<Rightarrow> x);
          mRate = (case mutationRate options of None \<Rightarrow> 0.2 | Some x \<Rightarrow> x);
          elites = selectElites population count
      in fillGeneration population pokemonPool mode cRate mRate ([] @ elites) g)"

section \<open>JavaScript numbers\<close>

text \<open>
  A number is finite, an infinity or \<open>NaN\<close>. Negative zero is not distinguished from zero:
  a division by zero takes its sign from the numerator alone.
\<close>

datatype jsnum = Number real | PosInf | NegInf | NaN

fun sign_of :: "jsnum \<Rightarrow> real" where
  "sign_of (Number a) = sgn a"
| "sign_of PosInf = 1"
| "sign_of NegInf = - 1"
| "sign_of NaN = 0"

definition inf_of_sign :: "real \<Rightarrow> jsnum" where
  "inf_of_sign s = (if s = 0 then NaN else if s > 0 then PosInf else NegInf)"

fun js_add :: "jsnum \<Rightarrow> jsnum \<Rightarrow> jsnum" where
  "js_add NaN y = NaN"
| "js_add x NaN = NaN"
| "js_add (Number a) (Number b) = Number (a + b)"
| "js_add PosInf NegInf = NaN"
| "js_add NegInf PosInf = NaN"
| "js_add PosInf y = PosInf"
| "js_add NegInf y = NegInf"
| "js_add x PosInf = PosInf"
| "js_add x NegInf = NegInf"

fun js_mul :: "jsnum \<Rightarrow> jsnum \<Rightarrow> jsnum" where
  "js_mul NaN y = NaN"
| "js_mul x NaN = NaN"
| "js_mul (Number a) (Number b) = Number (a * b)"
| "js_mul x y = inf_of_sign (sign_of x * sign_of y)"

fun js_div :: "jsnum \<Rightarrow> jsnum \<Rightarrow> jsnum" where
  "js_div NaN y = NaN"
| "js_div x NaN = NaN"
| "js_div (Number a) (Number b) = (if b \<noteq> 0 then Number (a / b) else inf_of_sign (sgn a))"
| "js_div (Number a) y = Number 0"
| "js_div x (Number b) = inf_of_sign (if b < 0 then - sign_of x else sign_of x)"
| "js_div x y = NaN"

fun js_lt :: "jsnum \<Rightarrow> jsnum \<Rightarrow> bool" where
  "js_lt NaN y = False"
| "js_lt x NaN = False"
| "js_lt (Number a) (Number b) = (a < b)"
| "js_lt x NegInf = False"
| "js_lt NegInf y = True"
| "js_lt PosInf y = False"
| "js_lt x PosInf = True"

definition js_eq :: "jsnum \<Rightarrow> jsnum \<Rightarrow> bool" where
  \<comment> \<open>\<open>x === y\<close> on numbers\<close>
  "js_eq x y = (x \<noteq> NaN \<and> x = y)"

definition js_gt :: "jsnum \<Rightarrow> jsnum \<Rightarrow> bool" where
  "js_gt x y = js_lt y x"

definition js_ge :: "jsnum \<Rightarrow> jsnum \<Rightarrow> bool" where
  "js_ge x y = (js_lt y x \<or> js_eq x y)"

definition Math_min :: "jsnum \<Rightarrow> jsnum \<Rightarrow> jsnum" where
  "Math_min x y = (if x = NaN \<or> y = NaN then NaN else if js_lt y x then y else x)"

section \<open>Population diversity (src/lib/genetic/chromosome.ts)\<close>

definition js_sort_strings :: "entry list \<Rightarrow> entry list" where
  \<comment> \<open>\<open>xs.sort()\<close> with the default comparator: the strings in code-unit order, then the
      \<open>undefined\<close> entries, then the empty slots\<close>
  "js_sort_strings xs =
     map Str (sort (List.map_filter js_read xs))
       @ replicate (length (filter (\<lambda>e. e = Undefined) xs)) Undefined
       @ replicate (length (filter (\<lambda>e. e = Hole) xs)) Hole"

fun js_join :: "entry list \<Rightarrow> string" where
  \<comment> \<open>\<open>xs.join(',')\<close>; \<open>undefined\<close> and an empty slot give the empty string\<close>
  "js_join [] = []"
| "js_join [x] = (case js_read x of None \<Rightarrow> [] | Some s \<Rightarrow> s)"
| "js_join (x # y # ys) =
     (case js_read x of None \<Rightarrow> [] | Some s \<Rightarrow> s) @ '','' @ js_join (y # ys)"

definition calculateDiversity :: "chromosome list \<Rightarrow> jsnum \<times> chromosome list" where
  \<comment> \<open>\<open>c.team.sort()\<close> sorts the team of each chromosome in place: the function returns
      the diversity and leaves the population as in the second component\<close>
  "calculateDiversity population =
     (let population' = map (\<lambda>c. c\<lparr>team := js_sort_strings (team c)\<rparr>) population;
          uniqueTeams = remdups (map (\<lambda>c. js_join (team c)) population')
      in (js_div (Number (real (length uniqueTeams))) (Number (real (length population))),
          population'))"

section \<open>src/lib/genetic/fitness.ts\<close>

text \<open>
  The ranking tables (\<open>../data/rankings\<close>) are not part of the source: the composition of
  \<open>speciesIdToRankingName\<close> and \<open>getAllRankingsForPokemon\<close> is the parameter \<open>rk\<close>,
  applied to the value that \<open>for (const speciesId of team)\<close> reads from an entry.
  The nine base components and the anchor bonus read the catalogue, the move table, the
  rankings and the type chart; in \<open>calculateFitness\<close> they are the fields of the parameter
  \<open>sc\<close>, so that what is proved of \<open>calculateFitness\<close> holds whatever they return.
\<close>

record rankings =
  average :: real
  overall :: real

fun surpriseLoop :: "(string option \<Rightarrow> rankings) \<Rightarrow> entry list \<Rightarrow> real \<Rightarrow> real" where
  "surpriseLoop rk [] surpriseScore = surpriseScore"
| "surpriseLoop rk (speciesId # rest) surpriseScore =
     (let r = rk (js_read speciesId);
          s1 = (if overall r \<ge> 60 \<and> overall r < 80 then surpriseScore + 0.3 else surpriseScore);
          s2 = (if overall r > 0 \<and> overall r < 60 then s1 + 0.5 else s1)
      in surpriseLoop rk rest s2)"

definition calculateSurpriseFactor :: "(string option \<Rightarrow> rankings) \<Rightarrow> entry list \<Rightarrow> jsnum" where
  \<comment> \<open>\<open>Math.min(surpriseScore / team.length, 1.0)\<close>\<close>
  "calculateSurpriseFactor rk t =
     Math_min (js_div (Number (surpriseLoop rk t 0)) (Number (real (length t)))) (Number 1.0)"

fun consistencyLoop :: "(string option \<Rightarrow> rankings) \<Rightarrow> entry list \<Rightarrow> real \<Rightarrow> real" where
  "consistencyLoop rk [] consistencyScore = consistencyScore"
| "consistencyLoop rk (speciesId # rest) consistencyScore =
     (let r = rk (js_read speciesId)
      in consistencyLoop rk rest
           (if average r \<ge> 85 then consistencyScore + 1.0
            else if average r \<ge> 75 then consistencyScore + 0.5
            else consistencyScore))"

definition calculateConsistency :: "(string option \<Rightarrow> rankings) \<Rightarrow> entry list \<Rightarrow> jsnum" where
  \<comment> \<open>\<open>consistencyScore / team.length\<close>\<close>
  "calculateConsistency rk t =
     js_div (Number (consistencyLoop rk t 0)) (Number (real (length t)))"

record scorers =
  calculateTypeCoverageScore :: "entry list \<Rightarrow> jsnum"
  calculateRankingScore :: "entry list \<Rightarrow> jsnum"
  calculateStrategyScore :: "entry list \<Rightarrow> tournament_mode \<Rightarrow> jsnum"
  calculateMetaThreatScore :: "entry list \<Rightarrow> jsnum"
  calculateEnergyScore :: "entry list \<Rightarrow> jsnum"
  calculateTypeDiversity :: "entry list \<Rightarrow> jsnum"
  calculateTypeSynergy :: "entry list \<Rightarrow> jsnum"
  calculateStatBalance :: "entry list \<Rightarrow> jsnum"
  calculateShadowPreference :: "entry list \<Rightarrow> jsnum"
  calculateAnchorSynergy :: "entry list \<Rightarrow> nat list \<Rightarrow> jsnum"

definition calculateFitness ::
  "scorers \<Rightarrow> (string option \<Rightarrow> rankings) \<Rightarrow> chromosome \<Rightarrow> tournament_mode \<Rightarrow> jsnum" where
  "calculateFitness sc rk chromosome mode =
     (let t = team chromosome;
          a = anchors chromosome;
          typeCoverage = js_mul (calculateTypeCoverageScore sc t) (Number 0.25);
          avgRanking = js_mul (calculateRankingScore sc t) (Number 0.15);
          strategyViability = js_mul (calculateStrategyScore sc t mode) (Number 0.1);
          metaThreatCoverage = js_mul (calculateMetaThreatScore sc t) (Number 0.05);
          energyBreakpoints = js_mul (calculateEnergyScore sc t) (Number 0.05);
          typeDiversity = js_mul (calculateTypeDiversity sc t) (Number 0.08);
          typeSynergy = js_mul (calculateTypeSynergy sc t) (Number 0.2);
          statBalance = js_mul (calculateStatBalance sc t) (Number 0.12);
          shadowPreference = js_mul (calculateShadowPreference sc t) (Number 0.08);
          fitness0 =
            js_add (js_add (js_add (js_add (js_add (js_add (js_add (js_add
              typeCoverage avgRanking) strategyViability) metaThreatCoverage)
              energyBreakpoints) typeDiversity) typeSynergy) statBalance) shadowPreference;
          fitness1 =
            (if mode = GBL
             then js_add fitness0 (js_mul (calculateSurpriseFactor rk t) (Number 0.15))
             else fitness0);
          fitness2 =
            (if mode = PlayPokemon
             then js_add fitness1 (js_mul (calculateConsistency rk t) (Number 0.1))
             else fitness1);
          fitness3 =
            (if length a > 0
             then js_add fitness2 (js_mul (calculateAnchorSynergy sc t a) (Number 0.5))
             else fitness2)
      in fitness3)"

section \<open>IEEE doubles\<close>

text \<open>
  What the type-effectiveness calculator returns depends on the rounding of each product, so
  its numbers are the doubles of IEEE 754 (binary64), bit for bit. \<open>Finite s m e\<close> is the
  number \<open>m \<times> 2\<^sup>e\<close>, negative when \<open>s\<close> holds; \<open>Finite True 0 e\<close> is negative zero. Every
  arithmetic result is in the canonical form of its value: \<open>m < 2\<^sup>5\<^sup>3\<close>,
  \<open>- 1074 \<le> e \<le> 971\<close>, and \<open>2\<^sup>5\<^sup>2 \<le> m\<close> unless \<open>e = - 1074\<close> (zero and the subnormal
  numbers).

  \<open>fl s p q\<close>, for \<open>0 < q\<close>, is the double nearest to the fraction \<open>p / q\<close> with the sign
  \<open>s\<close>: a tie goes to the even significand, a magnitude that rounds to \<open>2\<^sup>1\<^sup>0\<^sup>2\<^sup>4\<close> or more
  goes to the infinity. This is the rounding that JavaScript applies to the exact result of
  every multiplication and division, and to a decimal literal: the literal \<open>1.6\<close> is
  \<open>fl False 16 10\<close>.
\<close>

datatype double = Finite bool nat int | Infinite bool | NotANumber

fun valueOf :: "double \<Rightarrow> jsnum" where
  \<comment> \<open>the number a double stands for\<close>
  "valueOf (Finite s m e) =
     Number ((if s then - real m else real m) * (if 0 \<le> e then 2 ^ nat e else 1 / 2 ^ nat (- e)))"
| "valueOf (Infinite s) = (if s then NegInf else PosInf)"
| "valueOf NotANumber = NaN"

fun bitLength :: "nat \<Rightarrow> nat" where
  \<comment> \<open>the number of binary digits: \<open>2 ^ (bitLength n - 1) \<le> n < 2 ^ bitLength n\<close> for \<open>0 < n\<close>\<close>
  "bitLength n = (if n = 0 then 0 else Suc (bitLength (n div 2)))"

declare bitLength.simps [simp del]

definition rne :: "nat \<Rightarrow> nat \<Rightarrow> nat \<Rightarrow> nat" where
  \<comment> \<open>the quotient \<open>q\<close> of a division by \<open>d\<close> with remainder \<open>r\<close>, rounded to the nearest
      integer, a tie to the even one\<close>
  "rne q r d = (if 2 * r < d then q else if d < 2 * r then q + 1 else if even q then q else q + 1)"

definition div_rne :: "nat \<Rightarrow> nat \<Rightarrow> nat" where
  "div_rne p d = rne (p div d) (p mod d) d"

definition scaled :: "nat \<Rightarrow> nat \<Rightarrow> int \<Rightarrow> nat \<times> nat" where
  \<comment> \<open>numerator and denominator of \<open>p / (q \<times> 2\<^sup>e)\<close>\<close>
  "scaled p q e = (if 0 \<le> e then (p, q * 2 ^ nat e) else (p * 2 ^ nat (- e), q))"

definition pack :: "bool \<Rightarrow> nat \<Rightarrow> int \<Rightarrow> double" where
  \<comment> \<open>a rounded significand that reached \<open>2\<^sup>5\<^sup>3\<close> moves to the next exponent; past the
      largest exponent the result is an infinity\<close>
  "pack s m e =
     (if m = 2 ^ 53 then (if 971 < e + 1 then Infinite s else Finite s (2 ^ 52) (e + 1))
      else if 971 < e then Infinite s
      else Finite s m e)"

definition round_at :: "bool \<Rightarrow> nat \<Rightarrow> nat \<Rightarrow> int \<Rightarrow> double" where
  \<comment> \<open>\<open>p / q\<close> rounded to a multiple of \<open>2\<^sup>e\<close>\<close>
  "round_at s p q e = pack s (div_rne (fst (scaled p q e)) (snd (scaled p q e))) e"

definition adjust :: "nat \<Rightarrow> nat \<Rightarrow> int \<Rightarrow> int" where
  \<comment> \<open>\<open>p / (q \<times> 2\<^sup>e)\<close> lies between \<open>2\<^sup>5\<^sup>2\<close> and \<open>2\<^sup>5\<^sup>4\<close>: the exponent at which it has 53
      binary digits before the point, and no exponent below that of the subnormal numbers\<close>
  "adjust p q e =
     max (if fst (scaled p q e) < snd (scaled p q e) * 2 ^ 53 then e else e + 1) (- 1074)"

definition fl :: "bool \<Rightarrow> nat \<Rightarrow> nat \<Rightarrow> double" where
  "fl s p q =
     (if p = 0 then Finite s 0 (- 1074)
      else round_at s p q (adjust p q (int (bitLength p) - int (bitLength q) - 53)))"

fun dmul :: "double \<Rightarrow> double \<Rightarrow> double" where
  \<comment> \<open>\<open>x * y\<close>\<close>
  "dmul NotANumber y = NotANumber"
| "dmul x NotANumber = NotANumber"
| "dmul (Finite s m e) (Finite t n f) =
     (if 0 \<le> e + f then fl (s \<noteq> t) (m * n * 2 ^ nat (e + f)) 1
      else fl (s \<noteq> t) (m * n) (2 ^ nat (- (e + f))))"
| "dmul (Finite s m e) (Infinite t) = (if m = 0 then NotANumber else Infinite (s \<noteq> t))"
| "dmul (Infinite s) (Finite t n f) = (if n = 0 then NotANumber else Infinite (s \<noteq> t))"
| "dmul (Infinite s) (Infinite t) = Infinite (s \<noteq> t)"

fun ddiv :: "double \<Rightarrow> double \<Rightarrow> double" where
  \<comment> \<open>\<open>x / y\<close>\<close>
  "ddiv NotANumber y = NotANumber"
| "ddiv x NotANumber = NotANumber"
| "ddiv (Finite s m e) (Finite t n f) =
     (if n = 0 then (if m = 0 then NotANumber else Infinite (s \<noteq> t))
      else if 0 \<le> e - f then fl (s \<noteq> t) (m * 2 ^ nat (e - f)) n
      else fl (s \<noteq> t) m (n * 2 ^ nat (f - e)))"
| "ddiv (Finite s m e) (Infinite t) = Finite (s \<noteq> t) 0 (- 1074)"
| "ddiv (Infinite s) (Finite t n f) = Infinite (s \<noteq> t)"
| "ddiv (Infinite s) (Infinite t) = NotANumber"

definition round_int :: "bool \<Rightarrow> int \<Rightarrow> double" where
  \<comment> \<open>the integer \<open>n\<close> as a double; a zero keeps the sign \<open>s\<close> of the number that was
      rounded\<close>
  "round_int s n = fl (if n = 0 then s else n < 0) (nat \<bar>n\<bar>) 1"

fun Math_round :: "double \<Rightarrow> double" where
  \<comment> \<open>the integer nearest to \<open>x\<close>, a tie towards \<open>+\<infinity>\<close>: the floor of \<open>x + 1 / 2\<close>,
      computed exactly. A number with no binary digit after the point is returned as it is.\<close>
  "Math_round (Finite s m e) =
     (if 0 \<le> e then Finite s m e
      else round_int s
             (((if s then - 2 * int m else 2 * int m) + 2 ^ nat (- e)) div 2 ^ nat (1 - e)))"
| "Math_round x = x"

section \<open>Type effectiveness\<close>

text \<open>
  The chart (\<open>@/data/type-effectiveness.json\<close>) is not part of the source and is a
  parameter. \<open>chart a d\<close> is the outcome of the property access \<open>typeChart[a]?.[d]\<close>, which
  the loop evaluates once for the test and once for the product:
  \<^item> \<open>Absent\<close> when it is \<open>undefined\<close>: the chart has no row \<open>a\<close>, or the row has no entry
    \<open>d\<close>;
  \<^item> \<open>Entry x\<close> when it finds a value, \<open>x\<close> being the number that \<open>multiplier *= value\<close>
    multiplies by: the entry itself when it is a number of the file, \<open>NaN\<close> for a function
    or an object that the key inherits from \<open>Object.prototype\<close>, as at
    \<open>typeChart['fire']['constructor']\<close>;
  \<^item> \<open>Raises\<close> when the access throws, as an inherited accessor does at
    \<open>typeChart['constructor']['caller']\<close>.
\<close>

datatype lookup = Absent | Entry double | Raises

type_synonym typeChart = "string \<Rightarrow> string \<Rightarrow> lookup"

definition toLowerCase :: "string \<Rightarrow> string" where
  \<comment> \<open>\<open>String.prototype.toLowerCase\<close> on code units below 256: the letters \<open>A\<close> to \<open>Z\<close> and
      the upper-case letters of Latin-1, \<open>0xC0\<close> to \<open>0xDE\<close> without the multiplication sign
      \<open>0xD7\<close>, move up by 32; every other character stays\<close>
  "toLowerCase s =
     map (\<lambda>c. case map_of (zip
                 (''ABCDEFGHIJKLMNOPQRSTUVWXYZ'' @
                  [CHR 0xC0, CHR 0xC1, CHR 0xC2, CHR 0xC3, CHR 0xC4, CHR 0xC5, CHR 0xC6, CHR 0xC7,
                   CHR 0xC8, CHR 0xC9, CHR 0xCA, CHR 0xCB, CHR 0xCC, CHR 0xCD, CHR 0xCE, CHR 0xCF,
                   CHR 0xD0, CHR 0xD1, CHR 0xD2, CHR 0xD3, CHR 0xD4, CHR 0xD5, CHR 0xD6,
                   CHR 0xD8, CHR 0xD9, CHR 0xDA, CHR 0xDB, CHR 0xDC, CHR 0xDD, CHR 0xDE])
                 (''abcdefghijklmnopqrstuvwxyz'' @
                  [CHR 0xE0, CHR 0xE1, CHR 0xE2, CHR 0xE3, CHR 0xE4, CHR 0xE5, CHR 0xE6, CHR 0xE7,
                   CHR 0xE8, CHR 0xE9, CHR 0xEA, CHR 0xEB, CHR 0xEC, CHR 0xED, CHR 0xEE, CHR 0xEF,
                   CHR 0xF0, CHR 0xF1, CHR 0xF2, CHR 0xF3, CHR 0xF4, CHR 0xF5, CHR 0xF6,
                   CHR 0xF8, CHR 0xF9, CHR 0xFA, CHR 0xFB, CHR 0xFC, CHR 0xFD, CHR 0xFE])) c of
                 None \<Rightarrow> c
               | Some l \<Rightarrow> l) s"

fun effectivenessLoop :: "typeChart \<Rightarrow> string \<Rightarrow> string list \<Rightarrow> double \<Rightarrow> error + double" where
  \<comment> \<open>the \<open>for\<close> statement over \<open>defenseTypes\<close>, the same in both versions\<close>
  "effectivenessLoop chart normalizedAttack [] multiplier = Inr multiplier"
| "effectivenessLoop chart normalizedAttack (defType # rest) multiplier =
     (let normalizedDef = toLowerCase defType
      in case chart normalizedAttack normalizedDef of
           Raises \<Rightarrow> Inl TypeError
         | Absent \<Rightarrow> effectivenessLoop chart normalizedAttack rest multiplier
         | Entry v \<Rightarrow> effectivenessLoop chart normalizedAttack rest (dmul multiplier v))"

definition calculateEffectiveness :: "typeChart \<Rightarrow> string \<Rightarrow> string list \<Rightarrow> error + double" where
  \<comment> \<open>\<open>src/lib/coverage/typeChart.ts\<close>, lines 12 to 29\<close>
  "calculateEffectiveness chart attackType defenseTypes =
     (let normalizedAttack = toLowerCase attackType
      in effectivenessLoop chart normalizedAttack defenseTypes (fl False 1 1))"

definition calculateEffectiveness_rounded :: "typeChart \<Rightarrow> string list \<Rightarrow> string \<Rightarrow> error + double" where
  \<comment> \<open>\<open>src/unnamed/part_002\<close>, lines 229 to 247: the function of the same name that takes
      the defense types first and ends with
      \<open>Math.round(multiplier * 1000000) / 1000000\<close>\<close>
  "calculateEffectiveness_rounded chart defenseTypes attackType =
     (let normalizedAttack = toLowerCase attackType
      in case effectivenessLoop chart normalizedAttack defenseTypes (fl False 1 1) of
           Inl err \<Rightarrow> Inl err
         | Inr multiplier \<Rightarrow>
             Inr (ddiv (Math_round (dmul multiplier (fl False 1000000 1))) (fl False 1000000 1)))"

definition getEffectivenessCategory :: "jsnum \<Rightarrow> string" where
  \<comment> \<open>\<open>src/unnamed/part_002\<close>, lines 264 to 272\<close>
  "getEffectivenessCategory multiplier =
     (if js_ge multiplier (Number 2.0) then ''Double Super Effective''
      else if js_ge multiplier (Number 1.6) then ''Super Effective''
      else if js_gt multiplier (Number 1.0) then ''Effective''
      else if js_eq multiplier (Number 1.0) then ''Neutral''
      else if js_ge multiplier (Number 0.625) then ''Not Very Effective''
      else if js_ge multiplier (Number 0.39) then ''Resisted''
      else ''Heavily Resisted'')"

section \<open>The specification's reading of convergence\<close>



section \<open>Basic facts\<close>

subsection \<open>Arrays and the random source\<close>

lemma random_index_less: "0 \<le> r \<Longrightarrow> r < 1 \<Longrightarrow> 0 < n \<Longrightarrow> random_index r n < n"
proof -
  assume r: "0 \<le> r" "r < 1" and n: "0 < n"
  have "r * real n < real n" using r n by simp
  then have "\<lfloor>r * real n\<rfloor> < int n" by (simp add: floor_less_iff)
  moreover have "0 \<le> \<lfloor>r * real n\<rfloor>" using r by simp
  ultimately show ?thesis unfolding random_index_def by linarith
qed

lemma Rep_rand01_bounds: "0 \<le> Rep_rand01 x" "Rep_rand01 x < 1"
  using Rep_rand01 [of x] by auto

lemma js_read_Some: "js_read e = Some s \<longleftrightarrow> e = Str s"
  by (cases e) auto

lemma js_get_js_set: "js_get (js_set xs k v) i = (if i = k then Some v else js_get xs i)"
  by (auto simp: js_get_def js_set_def nth_append nth_list_update)

lemma length_js_set: "k < length xs \<Longrightarrow> length (js_set xs k v) = length xs"
  by (simp add: js_set_def)

lemma dense_js_set: "k < length xs \<Longrightarrow> dense xs \<Longrightarrow> dense (js_set xs k v)"
  by (auto simp: js_set_def dense_def dest: set_update_subset_insert [THEN subsetD])

lemma Undefined_js_set: "Undefined \<notin> set xs \<Longrightarrow> Undefined \<notin> set (js_set xs k v)"
  by (auto simp: js_set_def dest: set_update_subset_insert [THEN subsetD])

lemma js_get_dense: "dense xs \<Longrightarrow> i < length xs \<Longrightarrow> \<exists>s. js_get xs i = Some s"
  by (cases "xs ! i") (auto simp: js_get_def dense_def dest: nth_mem)

lemma length_js_spread [simp]: "length (js_spread xs) = length xs"
  by (simp add: js_spread_def)

lemma js_get_js_spread [simp]: "js_get (js_spread xs) i = js_get xs i"
  by (simp add: js_get_def js_spread_def)

lemma js_spread_id: "Hole \<notin> set xs \<Longrightarrow> js_spread xs = xs"
  unfolding js_spread_def by (induction xs) auto

lemma dense_js_spread: "dense xs \<Longrightarrow> js_spread xs = xs"
  by (simp add: dense_def js_spread_id)

lemma Undefined_js_spread: "Undefined \<notin> set (js_spread xs) \<longleftrightarrow> dense xs"
  by (auto simp: js_spread_def dense_def)

lemma dense_map_Str [simp]: "dense (map Str ss)"
  by (auto simp: dense_def)

lemma dense_strings: "dense t \<Longrightarrow> \<exists>ss. t = map Str ss"
proof (induction t)
  case Nil
  then show ?case by simp
next
  case (Cons e t)
  then obtain ss where "t = map Str ss" by (auto simp: dense_def)
  moreover from Cons.prems obtain s where "e = Str s" by (cases e) (auto simp: dense_def)
  ultimately have "e # t = map Str (s # ss)" by simp
  then show ?case by (rule exI)
qed

lemma upt_3: "[0..<3] = [0, 1, 2]"
  by code_simp

lemma upt_6: "[0..<6] = [0, 1, 2, 3, 4, 5]"
  by code_simp

subsection \<open>Chromosomes\<close>

lemma mapBaseSpecies_defined:
  "Undefined \<notin> set t \<Longrightarrow> \<exists>bases. mapBaseSpecies t = Inr bases"
proof (induction t)
  case Nil
  then show ?case by simp
next
  case (Cons e t)
  then show ?case by (cases e) auto
qed

lemma mapBaseSpecies_raises:
  "Undefined \<in> set t \<Longrightarrow> mapBaseSpecies t = Inl TypeError"
proof (induction t)
  case Nil
  then show ?case by simp
next
  case (Cons e t)
  then show ?case by (cases e) (auto split: sum.splits)
qed

lemma mapBaseSpecies_strings:
  "mapBaseSpecies (map Str ss) = Inr (map (\<lambda>s. Some (getBaseSpecies s)) ss)"
  by (induction ss) auto

lemma validateTeamUniqueness_defined:
  "Undefined \<notin> set t \<Longrightarrow> \<exists>unique. validateTeamUniqueness t = Inr unique"
  using mapBaseSpecies_defined [of t] by (auto simp: validateTeamUniqueness_def Let_def)

lemma validateTeamUniqueness_strings:
  "validateTeamUniqueness (map Str ss) = Inr (distinct (map getBaseSpecies ss))"
proof -
  have "distinct (map (\<lambda>s. Some (getBaseSpecies s)) ss) = distinct (map getBaseSpecies ss)"
    by (simp add: distinct_map inj_on_def)
  then show ?thesis
    by (simp add: validateTeamUniqueness_def mapBaseSpecies_strings Let_def del: length_map)
qed

lemma isValidChromosome_strings:
  "isValidChromosome \<lparr>team = map Str ss, anchors = a, fitness = f\<rparr> mode
     = Inr (length ss = (case mode of GBL \<Rightarrow> 3 | PlayPokemon \<Rightarrow> 6)
            \<and> distinct (map getBaseSpecies ss))"
  by (cases mode)
     (auto simp: isValidChromosome_def teamSizeOf_def validateTeamUniqueness_strings)

lemma isValidChromosome_length:
  "isValidChromosome c mode = Inr True \<Longrightarrow> length (team c) = teamSizeOf mode"
  by (auto simp: isValidChromosome_def Let_def split: if_splits sum.splits)

lemma isValidChromosome_unique:
  "isValidChromosome c mode = Inr True \<Longrightarrow> validateTeamUniqueness (team c) = Inr True"
  by (auto simp: isValidChromosome_def Let_def split: if_splits sum.splits)

lemma set_getMutableSlots:
  "set (getMutableSlots c n) = {i. i < n \<and> i \<notin> set (anchors c)}"
  by (auto simp: getMutableSlots_def isAnchorSlot_def)

lemma team_cloneChromosome [simp]: "team (cloneChromosome c) = js_spread (team c)"
  by (simp add: cloneChromosome_def)

lemma anchors_cloneChromosome [simp]: "anchors (cloneChromosome c) = anchors c"
  by (simp add: cloneChromosome_def)

lemma fitness_cloneChromosome [simp]: "fitness (cloneChromosome c) = fitness c"
  by (simp add: cloneChromosome_def)

lemma cloneChromosome_id: "Hole \<notin> set (team c) \<Longrightarrow> cloneChromosome c = c"
  by (simp add: cloneChromosome_def js_spread_id)

lemma cloneChromosome_dense: "dense (team c) \<Longrightarrow> cloneChromosome c = c"
  by (simp add: cloneChromosome_id dense_def)

subsection \<open>Crossover\<close>

lemma addBaseSpecies_ok:
  "dense t \<Longrightarrow> \<forall>i\<in>set slots. i < length t \<Longrightarrow> \<exists>u. addBaseSpecies cond t slots used = Inr u"
proof (induction slots arbitrary: used)
  case Nil
  then show ?case by simp
next
  case (Cons i slots)
  then obtain s where "js_get t i = Some s" using js_get_dense [of t i] by auto
  with Cons show ?case by simp
qed

lemma copyFromParent2_ok:
  "dense p2 \<Longrightarrow> dense t \<Longrightarrow> \<forall>s\<in>set slots. s < length p2 \<and> s < length t \<Longrightarrow>
   \<exists>t'. copyFromParent2 cp p2 slots t used = Inr t' \<and> length t' = length t \<and> dense t'"
proof (induction slots arbitrary: t used)
  case Nil
  then show ?case by simp
next
  case (Cons slot slots)
  then obtain sp where sp: "js_get p2 slot = Some sp" using js_get_dense [of p2 slot] by auto
  have slot: "slot < length t" using Cons.prems by simp
  have rest: "\<forall>s\<in>set slots. s < length p2 \<and> s < length t" using Cons.prems by simp
  show ?case
  proof (cases "slot \<ge> cp \<and> getBaseSpecies sp \<notin> used")
    case True
    have "\<forall>s\<in>set slots. s < length p2 \<and> s < length (js_set t slot sp)"
      using rest slot by (simp add: length_js_set)
    from Cons.IH [OF Cons.prems(1) dense_js_set [OF slot Cons.prems(2)] this]
    show ?thesis using True sp slot by (simp add: length_js_set)
  next
    case False
    from Cons.IH [OF Cons.prems(1) Cons.prems(2) rest]
    show ?thesis using False sp by (auto simp: Let_def)
  qed
qed

lemma copyFromParent2_frame:
  "copyFromParent2 cp p2 slots t used = Inr t' \<Longrightarrow> i \<notin> set slots \<Longrightarrow> js_get t' i = js_get t i"
proof (induction slots arbitrary: t used)
  case Nil
  then show ?case by simp
next
  case (Cons slot slots)
  then show ?case
    by (auto simp: Let_def js_get_js_set split: if_splits option.splits)
qed

lemma assembleChild_ok:
  assumes "dense (team child)" "dense (team p2)"
    and "n \<le> length (team child)" "n \<le> length (team p2)"
    and "\<forall>s\<in>set slots. s < n"
  shows "\<exists>t. assembleChild child p2 n slots cp = Inr t \<and> length t = length (team child) \<and> dense t"
proof -
  obtain u1 where u1: "addBaseSpecies (\<lambda>i. isAnchorSlot i child) (team child) [0..<n] {} = Inr u1"
    using addBaseSpecies_ok [of "team child" "[0..<n]"] assms(1,3) by fastforce
  obtain u2 where u2: "addBaseSpecies (\<lambda>slot. slot < cp) (team child) slots u1 = Inr u2"
    using addBaseSpecies_ok [of "team child" slots] assms(1,3,5) by fastforce
  have "\<forall>s\<in>set slots. s < length (team p2) \<and> s < length (team child)"
    using assms(3,4,5) by fastforce
  from copyFromParent2_ok [OF assms(2) assms(1) this, of cp u2]
  show ?thesis by (simp add: assembleChild_def u1 u2)
qed

lemma assembleChild_frame:
  "assembleChild child p2 n slots cp = Inr t \<Longrightarrow> i \<notin> set slots \<Longrightarrow>
   js_get t i = js_get (team child) i"
  by (auto simp: assembleChild_def split: sum.splits dest: copyFromParent2_frame)

lemma crossoverAt_cases:
  assumes "isValidChromosome p1 mode = Inr True" "dense (team p1)"
    and "isValidChromosome p2 mode = Inr True" "dense (team p2)"
  shows "\<exists>t unique. assembleChild (cloneChromosome p1) p2 (teamSizeOf mode)
                (getMutableSlots (cloneChromosome p1) (teamSizeOf mode)) cp = Inr t
            \<and> length t = teamSizeOf mode \<and> dense t
            \<and> validateTeamUniqueness t = Inr unique
            \<and> crossoverAt p1 p2 mode cp =
                Inr (if unique then (cloneChromosome p1)\<lparr>team := t\<rparr> else cloneChromosome p1)"
proof -
  let ?n = "teamSizeOf mode"
  have len: "length (team p1) = ?n" "length (team p2) = ?n"
    using assms(1,3) by (simp_all add: isValidChromosome_length)
  have c: "cloneChromosome p1 = p1" using assms(2) by (rule cloneChromosome_dense)
  have "\<forall>s\<in>set (getMutableSlots p1 ?n). s < ?n"
    by (simp add: set_getMutableSlots)
  from assembleChild_ok [of p1 p2 ?n _ cp, OF assms(2) assms(4) _ _ this]
  obtain t where t: "assembleChild p1 p2 ?n (getMutableSlots p1 ?n) cp = Inr t"
    "length t = ?n" "dense t"
    using len by auto
  from t(3) obtain unique where u: "validateTeamUniqueness t = Inr unique"
    using validateTeamUniqueness_defined [of t] by (auto simp: dense_def)
  with t show ?thesis by (auto simp: crossoverAt_def Let_def c)
qed

lemma crossoverAt_valid:
  assumes "isValidChromosome p1 mode = Inr True" "dense (team p1)"
    and "isValidChromosome p2 mode = Inr True" "dense (team p2)"
  shows "\<exists>c. crossoverAt p1 p2 mode cp = Inr c \<and> isValidChromosome c mode = Inr True
            \<and> dense (team c)"
proof -
  from crossoverAt_cases [OF assms, of cp] obtain t unique where
    t: "length t = teamSizeOf mode" "dense t" "validateTeamUniqueness t = Inr unique"
    and r: "crossoverAt p1 p2 mode cp =
              Inr (if unique then (cloneChromosome p1)\<lparr>team := t\<rparr> else cloneChromosome p1)"
    by blast
  show ?thesis
  proof (cases unique)
    case True
    with t r show ?thesis by (simp add: isValidChromosome_def)
  next
    case False
    with r assms(1,2) show ?thesis by (simp add: cloneChromosome_dense)
  qed
qed

lemma crossoverAt_frame:
  assumes "crossoverAt p1 p2 mode cp = Inr c"
  shows "anchors c = anchors p1 \<and> (\<forall>i\<in>set (anchors p1). js_get (team c) i = js_get (team p1) i)"
proof -
  let ?n = "teamSizeOf mode"
  let ?slots = "getMutableSlots (cloneChromosome p1) ?n"
  from assms obtain t where t: "assembleChild (cloneChromosome p1) p2 ?n ?slots cp = Inr t"
    and c: "c = (cloneChromosome p1)\<lparr>team := t\<rparr> \<or> c = cloneChromosome p1"
    by (auto simp: crossoverAt_def Let_def split: sum.splits if_splits)
  have "js_get t i = js_get (team p1) i" if "i \<in> set (anchors p1)" for i
    using assembleChild_frame [OF t, of i] that by (simp add: set_getMutableSlots)
  with c show ?thesis by auto
qed

lemma crossover_frame:
  assumes "fst (crossover p1 p2 mode g) = Inr c"
  shows "anchors c = anchors p1 \<and> (\<forall>i\<in>set (anchors p1). js_get (team c) i = js_get (team p1) i)"
  using assms
  by (auto simp: crossover_def Let_def split: if_splits prod.splits dest: crossoverAt_frame)

lemma crossover_valid:
  assumes "isValidChromosome p1 mode = Inr True" "dense (team p1)"
    and "isValidChromosome p2 mode = Inr True" "dense (team p2)"
  shows "\<exists>c. fst (crossover p1 p2 mode g) = Inr c \<and> isValidChromosome c mode = Inr True
            \<and> dense (team c)"
  using assms crossoverAt_valid [OF assms]
  by (auto simp: crossover_def Let_def cloneChromosome_dense split: prod.splits)

subsection \<open>Mutation\<close>

lemma mutableSlot_pick:
  assumes "length (getMutableSlots c n) \<noteq> 0"
  shows "getMutableSlots c n ! random_index (Rep_rand01 x) (length (getMutableSlots c n))
           \<in> {i. i < n \<and> i \<notin> set (anchors c)}"
proof -
  have "random_index (Rep_rand01 x) (length (getMutableSlots c n)) < length (getMutableSlots c n)"
    using assms by (intro random_index_less Rep_rand01_bounds) simp
  then have "getMutableSlots c n ! random_index (Rep_rand01 x) (length (getMutableSlots c n))
        \<in> set (getMutableSlots c n)" by (rule nth_mem)
  then show ?thesis by (simp only: set_getMutableSlots)
qed

lemma mutate_cases:
  "(\<exists>e. fst (mutate c pool rate mode g) = Inl e \<and> \<not> dense (team c))
   \<or> fst (mutate c pool rate mode g) = Inr c
   \<or> fst (mutate c pool rate mode g) = Inr (cloneChromosome c)
   \<or> (\<exists>slot s. slot < teamSizeOf mode \<and> slot \<notin> set (anchors c) \<and> s \<in> set pool
        \<and> fst (mutate c pool rate mode g)
             = Inr ((cloneChromosome c)\<lparr>team := js_set (js_spread (team c)) slot s\<rparr>)
        \<and> validateTeamUniqueness (js_set (js_spread (team c)) slot s) = Inr True)"
proof -
  let ?n = "teamSizeOf mode"
  let ?m = "cloneChromosome c"
  let ?slots = "getMutableSlots ?m ?n"
  let ?g0 = "snd (Math_random g)"
  let ?g1 = "snd (Math_random ?g0)"
  let ?slot = "?slots ! random_index (fst (Math_random ?g0)) (length ?slots)"
  show ?thesis
  proof (cases "fst (Math_random g) > rate \<or> length ?slots = 0")
    case True
    then show ?thesis by (auto simp: mutate_def Let_def case_prod_beta)
  next
    case early: False
    have slot: "?slot \<in> {i. i < ?n \<and> i \<notin> set (anchors ?m)}"
      unfolding Math_random_def fst_conv using early by (intro mutableSlot_pick) simp
    show ?thesis
    proof (cases "mapBaseSpecies (team ?m)")
      case (Inl e)
      then have "\<not> dense (team c)"
        using mapBaseSpecies_defined [of "team ?m"] by (auto simp: Undefined_js_spread)
      with Inl early show ?thesis by (auto simp: mutate_def Let_def case_prod_beta)
    next
      case (Inr bases)
      let ?avail = "filter (\<lambda>s. Some (getBaseSpecies s) \<notin> set bases) pool"
      let ?new = "?avail ! random_index (fst (Math_random ?g1)) (length ?avail)"
      have undef: "Undefined \<notin> set (js_spread (team c))"
        using Inr mapBaseSpecies_raises [of "js_spread (team c)"] by auto
      show ?thesis
      proof (cases "length ?avail = 0")
        case True
        with Inr early show ?thesis by (auto simp: mutate_def Let_def case_prod_beta)
      next
        case False
        have "random_index (fst (Math_random ?g1)) (length ?avail) < length ?avail"
          unfolding Math_random_def fst_conv using False
          by (intro random_index_less Rep_rand01_bounds) simp
        then have "?new \<in> set ?avail" by (rule nth_mem)
        then have new: "?new \<in> set pool" by simp
        obtain unique where u:
          "validateTeamUniqueness (js_set (js_spread (team c)) ?slot ?new) = Inr unique"
          using validateTeamUniqueness_defined [OF Undefined_js_set [OF undef]] by blast
        show ?thesis
        proof (cases unique)
          case True
          have "fst (mutate c pool rate mode g)
                  = Inr (?m\<lparr>team := js_set (js_spread (team c)) ?slot ?new\<rparr>)"
            using early Inr False u True by (simp add: mutate_def Let_def case_prod_beta)
          with slot new u True show ?thesis by auto
        next
          case no: False
          have "fst (mutate c pool rate mode g) = Inr c"
            using early Inr False u no by (simp add: mutate_def Let_def case_prod_beta)
          then show ?thesis by simp
        qed
      qed
    qed
  qed
qed

lemma mutate_valid:
  assumes "isValidChromosome c mode = Inr True" "dense (team c)"
  shows "\<exists>m. fst (mutate c pool rate mode g) = Inr m \<and> isValidChromosome m mode = Inr True
            \<and> dense (team m)"
proof -
  have len: "length (team c) = teamSizeOf mode"
    using assms(1) by (rule isValidChromosome_length)
  have sp: "js_spread (team c) = team c" using assms(2) by (rule dense_js_spread)
  have cl: "cloneChromosome c = c" using assms(2) by (rule cloneChromosome_dense)
  from mutate_cases [of c pool rate mode g] assms(2)
  consider "fst (mutate c pool rate mode g) = Inr c"
    | slot s where "slot < teamSizeOf mode"
        "fst (mutate c pool rate mode g) = Inr (c\<lparr>team := js_set (team c) slot s\<rparr>)"
        "validateTeamUniqueness (js_set (team c) slot s) = Inr True"
    by (auto simp: sp cl)
  then show ?thesis
  proof cases
    case 1
    with assms show ?thesis by simp
  next
    case 2
    from 2(1) len have "slot < length (team c)" by simp
    then show ?thesis
      using 2(2,3) len assms(2) by (simp add: isValidChromosome_def length_js_set dense_js_set)
  qed
qed

lemma mutate_frame:
  assumes "fst (mutate c pool rate mode g) = Inr m"
  shows "anchors m = anchors c \<and> (\<forall>i\<in>set (anchors c). js_get (team m) i = js_get (team c) i)"
  using mutate_cases [of c pool rate mode g] assms by (auto simp: js_get_js_set)

subsection \<open>The next generation\<close>

lemma drawTournament_members:
  "population \<noteq> [] \<Longrightarrow>
   length (fst (drawTournament population k g)) = k
   \<and> (\<forall>x\<in>set (fst (drawTournament population k g)). \<exists>c\<in>set population. x = Some c)"
proof (induction k arbitrary: g)
  case 0
  then show ?case by simp
next
  case (Suc k)
  have "random_index (fst (Math_random g)) (length population) < length population"
    unfolding Math_random_def fst_conv using Suc.prems
    by (intro random_index_less Rep_rand01_bounds) simp
  with Suc show ?case by (auto simp: Let_def case_prod_beta)
qed

lemma reduceBest_members:
  "b \<in> S \<Longrightarrow> \<forall>x\<in>set xs. \<exists>c\<in>S. x = Some c \<Longrightarrow> \<exists>c\<in>S. reduceBest (Some b) xs = Inr (Some c)"
proof (induction xs arbitrary: b)
  case Nil
  then show ?case by simp
next
  case (Cons x xs)
  then obtain c where c: "c \<in> S" "x = Some c" by auto
  have "(if fitness c > fitness b then c else b) \<in> S" using c Cons.prems by simp
  from Cons.IH [OF this] Cons.prems(2) c show ?case by (simp add: if_distrib [of Some])
qed

lemma tournamentSelection_member:
  assumes "population \<noteq> []"
  shows "\<exists>c\<in>set population. fst (tournamentSelection population (Suc k) g) = Inr (Some c)"
proof -
  let ?t = "fst (drawTournament population (Suc k) g)"
  from drawTournament_members [OF assms, of "Suc k" g]
  have len: "length ?t = Suc k" and mem: "\<forall>x\<in>set ?t. \<exists>c\<in>set population. x = Some c"
    by blast+
  from len obtain first rest where t: "?t = first # rest" by (cases ?t) auto
  with mem obtain b where b: "b \<in> set population" "first = Some b" by auto
  from mem t have "\<forall>x\<in>set rest. \<exists>c\<in>set population. x = Some c" by simp
  from reduceBest_members [OF b(1) this] b t show ?thesis
    by (simp add: tournamentSelection_def case_prod_beta del: drawTournament.simps)
qed

lemma fillGeneration_result:
  assumes "fillGeneration population pool mode cr mr next g = Inr out"
    and "length next \<le> length population"
  shows "length out = length population \<and> take (length next) out = next"
  using assms
proof (induction "length population - length next" arbitrary: "next" g)
  case 0
  then have "\<not> length next < length population" by simp
  with 0 show ?case by (simp add: fillGeneration.simps [of population pool mode cr mr "next" g])
next
  case (Suc k)
  then have lt: "length next < length population" by simp
  from Suc.prems(1) lt obtain child g' where
    rec: "fillGeneration population pool mode cr mr (next @ [child]) g' = Inr out"
    by (subst (asm) fillGeneration.simps)
       (auto simp: Let_def split: prod.splits sum.splits option.splits if_splits)
  have "k = length population - length (next @ [child])" using Suc.hyps(2) by simp
  from Suc.hyps(1) [OF this rec] lt
  have out: "length out = length population" "take (Suc (length next)) out = next @ [child]"
    by simp_all
  have "take (length next) out = take (length next) (take (Suc (length next)) out)"
    by (simp add: min_def)
  also have "\<dots> = next" by (simp add: out(2))
  finally show ?case using out(1) by simp
qed

lemma fillGeneration_returns:
  assumes "\<forall>c\<in>set population. isValidChromosome c mode = Inr True \<and> dense (team c)"
  shows "\<exists>out. fillGeneration population pool mode cr mr next g = Inr out"
proof (induction "length population - length next" arbitrary: "next" g)
  case 0
  then have "\<not> length next < length population" by simp
  then show ?case by (simp add: fillGeneration.simps [of population pool mode cr mr "next" g])
next
  case (Suc k)
  then have lt: "length next < length population" by simp
  then have ne: "population \<noteq> []" by auto
  obtain p1 g1 where p1: "tournamentSelection population 3 g = (Inr (Some p1), g1)"
    "p1 \<in> set population"
    using tournamentSelection_member [OF ne, of 2 g]
    by (cases "tournamentSelection population 3 g") (auto simp: numeral_3_eq_3)
  obtain p2 g2 where p2: "tournamentSelection population 3 g1 = (Inr (Some p2), g2)"
    "p2 \<in> set population"
    using tournamentSelection_member [OF ne, of 2 g1]
    by (cases "tournamentSelection population 3 g1") (auto simp: numeral_3_eq_3)
  obtain r g3 where r: "Math_random g2 = (r, g3)" by (cases "Math_random g2")
  have v1: "isValidChromosome p1 mode = Inr True" "dense (team p1)"
    and v2: "isValidChromosome p2 mode = Inr True" "dense (team p2)"
    using assms p1(2) p2(2) by auto
  obtain child g4 where c:
    "(if r < cr then crossover p1 p2 mode g3 else (Inr (cloneChromosome p1), g3)) = (Inr child, g4)"
    and vc: "isValidChromosome child mode = Inr True" "dense (team child)"
    using crossover_valid [OF v1 v2, of g3] v1
    by (cases "crossover p1 p2 mode g3"; cases "r < cr") (auto simp: cloneChromosome_dense)
  obtain child' g5 where m: "mutate child pool mr mode g4 = (Inr child', g5)"
    using mutate_valid [OF vc, of pool mr g4] by (cases "mutate child pool mr mode g4") auto
  have "k = length population - length (next @ [child'])" using Suc.hyps(2) by simp
  from Suc.hyps(1) [OF this, of g5] obtain out where
    "fillGeneration population pool mode cr mr (next @ [child']) g5 = Inr out" by blast
  then show ?case
    using lt p1(1) p2(1) r c m
    by (simp add: fillGeneration.simps [of population pool mode cr mr "next" g])
qed

lemma length_selectElites: "length (selectElites population e) \<le> length population"
  by (simp add: selectElites_def js_slice0_def Let_def)

lemma selectElites_take:
  "0 \<le> e \<Longrightarrow>
   selectElites population e = map cloneChromosome (take (nat e) (sortByFitness population))"
  by (simp add: selectElites_def js_slice0_def sortByFitness_def Let_def)

lemma set_sortByFitness [simp]: "set (sortByFitness population) = set population"
  by (simp add: sortByFitness_def)

lemma map_cloneChromosome_id:
  "\<forall>c\<in>set cs. Hole \<notin> set (team c) \<Longrightarrow> map cloneChromosome cs = cs"
  by (induction cs) (simp_all add: cloneChromosome_id)

subsection \<open>Numbers and type effectiveness\<close>

lemma js_add_NaN [simp]: "js_add x NaN = NaN"
  by (cases x) simp_all

lemma bitLength_zero [simp]: "bitLength 0 = 0"
  by (simp add: bitLength.simps)

lemma bitLength_Suc_0 [simp]: "bitLength (Suc 0) = Suc 0"
  by (subst bitLength.simps) simp

lemma bitLength_one [simp]: "bitLength 1 = 1"
  by simp

lemma bitLength_Bit0 [simp]: "bitLength (numeral (Num.Bit0 k)) = Suc (bitLength (numeral k))"
  by (subst bitLength.simps) simp

lemma bitLength_Bit1 [simp]: "bitLength (numeral (Num.Bit1 k)) = Suc (bitLength (numeral k))"
  by (subst bitLength.simps) simp

lemmas double_eval =
  fl_def adjust_def round_at_def pack_def scaled_def div_rne_def rne_def round_int_def

text \<open>The literals of the source and of the chart, as doubles.\<close>

lemma literal_1: "fl False 1 1 = Finite False 4503599627370496 (- 52)"
  by (simp add: double_eval)

lemma literal_1000000: "fl False 1000000 1 = Finite False 8589934592000000 (- 33)"
  by (simp add: double_eval)

lemma literal_1_6: "fl False 16 10 = Finite False 7205759403792794 (- 52)"
  by (simp add: double_eval)

lemma literal_0_625: "fl False 625 1000 = Finite False 5629499534213120 (- 53)"
  by (simp add: double_eval)

lemma literal_2_56: "fl False 256 100 = Finite False 5764607523034235 (- 51)"
  by (simp add: double_eval)

text \<open>
  A product is rounded: \<open>1.6 * 0.625\<close> is the double \<open>1\<close>, and \<open>1.6 * 1.6\<close> is the double above
  the literal \<open>2.56\<close>, which rounding to six decimal places brings back to that literal.
\<close>

lemma dmul_1_6_0_625: "dmul (fl False 16 10) (fl False 625 1000) = fl False 1 1"
  by (simp add: literal_1 literal_1_6 literal_0_625) (simp add: double_eval)

lemma dmul_1_1_6: "dmul (fl False 1 1) (fl False 16 10) = fl False 16 10"
  by (simp add: literal_1 literal_1_6) (simp add: double_eval)

lemma dmul_1_6_1_6:
  "dmul (fl False 16 10) (fl False 16 10) = Finite False 5764607523034236 (- 51)"
  by (simp add: literal_1_6) (simp add: double_eval)

lemma round_six_decimals:
  "ddiv (Math_round (dmul (Finite False 5764607523034236 (- 51)) (fl False 1000000 1)))
        (fl False 1000000 1) = Finite False 5764607523034235 (- 51)"
  by (simp add: literal_1000000) (simp add: double_eval)

text \<open>The two versions differ by the final rounding only.\<close>

lemma calculateEffectiveness_rounded_eq:
  "calculateEffectiveness_rounded chart defenseTypes attackType =
     (case calculateEffectiveness chart attackType defenseTypes of
        Inl err \<Rightarrow> Inl err
      | Inr multiplier \<Rightarrow>
          Inr (ddiv (Math_round (dmul multiplier (fl False 1000000 1))) (fl False 1000000 1)))"
  by (simp add: calculateEffectiveness_rounded_def calculateEffectiveness_def)

text \<open>
  When no access throws, the loop multiplies the entries that are present, from the left, and
  passes over the absent ones.
\<close>

lemma effectivenessLoop_foldl:
  "\<forall>d \<in> set defs. chart a (toLowerCase d) \<noteq> Raises \<Longrightarrow>
   effectivenessLoop chart a defs m =
     Inr (foldl dmul m
            (List.map_filter (\<lambda>d. case chart a (toLowerCase d) of Entry x \<Rightarrow> Some x | _ \<Rightarrow> None) defs))"
  by (induction defs arbitrary: m) (auto simp: List.map_filter_def split: lookup.splits)

lemma effectivenessLoop_Raises:
  "\<exists>d \<in> set defs. chart a (toLowerCase d) = Raises \<Longrightarrow>
   effectivenessLoop chart a defs m = Inl TypeError"
  by (induction defs arbitrary: m) (auto split: lookup.splits)

subsection \<open>Convergence\<close>





subsection \<open>Unfolding the model on concrete inputs\<close>

lemmas eval_defs =
  isValidChromosome_def validateTeamUniqueness_def teamSizeOf_def dense_def getBaseSpecies_def
  crossover_def crossoverAt_def assembleChild_def js_get_def js_set_def js_spread_def
  isAnchorSlot_def cloneChromosome_def getMutableSlots_def Math_random_def random_index_def
  mutate_def rand_half.rep_eq rand_zero.rep_eq upt_3 upt_6

section \<open>The claims\<close>

subsection \<open>C1\<close>

text \<open>
  Claim C1. A chromosome is valid for a mode when \<open>isValidChromosome\<close> returns true for it
  and its team is dense: a team of strings of the mode's length, 3 for GBL and 6 for
  PlayPokemon, whose base species are pairwise distinct (\<open>isValidChromosome_strings\<close>).
  For every mode and every pair of chromosomes valid for it, \<open>crossover\<close> raises no error
  and returns a chromosome valid for the mode, whatever the random source yields; for every
  valid chromosome, every pool and every mutation rate, \<open>mutate\<close> raises no error and
  returns a chromosome valid for the mode.
\<close>

theorem operators_preserve_validity:
  "(isValidChromosome parent1 mode = Inr True \<and> dense (team parent1)
      \<and> isValidChromosome parent2 mode = Inr True \<and> dense (team parent2)
    \<longrightarrow> (\<exists>child. fst (crossover parent1 parent2 mode g) = Inr child
            \<and> isValidChromosome child mode = Inr True \<and> dense (team child)))
   \<and> (isValidChromosome c mode = Inr True \<and> dense (team c)
    \<longrightarrow> (\<exists>mutated. fst (mutate c pool rate mode g') = Inr mutated
            \<and> isValidChromosome mutated mode = Inr True \<and> dense (team mutated)))"
  using crossover_valid [of parent1 mode parent2 g] mutate_valid [of c mode pool rate g']
  by blast

text \<open>
  The theorem at two valid parents of a GBL run and at a mutation that replaces a slot.
\<close>

theorem operators_preserve_validity_witness:
  "isValidChromosome \<lparr>team = [Str ''abra'', Str ''onix'', Str ''muk''], anchors = [0], fitness = 0\<rparr> GBL
     = Inr True
   \<and> dense [Str ''abra'', Str ''onix'', Str ''muk'']
   \<and> isValidChromosome \<lparr>team = [Str ''seel'', Str ''muk_shadow'', Str ''abra''], anchors = [0], fitness = 0\<rparr> GBL
     = Inr True
   \<and> dense [Str ''seel'', Str ''muk_shadow'', Str ''abra'']
   \<and> (\<exists>child. fst (crossover
          \<lparr>team = [Str ''abra'', Str ''onix'', Str ''muk''], anchors = [0], fitness = 0\<rparr>
          \<lparr>team = [Str ''seel'', Str ''muk_shadow'', Str ''abra''], anchors = [0], fitness = 0\<rparr>
          GBL (\<lambda>_. rand_zero)) = Inr child
        \<and> isValidChromosome child GBL = Inr True \<and> dense (team child))
   \<and> (\<exists>mutated. fst (mutate
          \<lparr>team = [Str ''abra'', Str ''onix'', Str ''muk''], anchors = [0], fitness = 0\<rparr>
          [''abra_shadow'', ''seel''] 1 GBL (\<lambda>_. rand_half)) = Inr mutated
        \<and> isValidChromosome mutated GBL = Inr True \<and> dense (team mutated))"
proof -
  let ?p1 = "\<lparr>team = [Str ''abra'', Str ''onix'', Str ''muk''], anchors = [0], fitness = 0\<rparr>"
  let ?p2 = "\<lparr>team = [Str ''seel'', Str ''muk_shadow'', Str ''abra''], anchors = [0], fitness = 0\<rparr>"
  have h: "isValidChromosome ?p1 GBL = Inr True \<and> dense (team ?p1)
           \<and> isValidChromosome ?p2 GBL = Inr True \<and> dense (team ?p2)"
    by (simp add: isValidChromosome_def validateTeamUniqueness_def teamSizeOf_def dense_def
          getBaseSpecies_def)
  from operators_preserve_validity
         [of ?p1 GBL ?p2 "\<lambda>_. rand_zero" ?p1 "[''abra_shadow'', ''seel'']" 1 "\<lambda>_. rand_half"] h
  show ?thesis by simp
qed

subsection \<open>C2\<close>

text \<open>
  Claim C2. For every run of \<open>crossover\<close> that returns a chromosome (parent 1 being the
  cloned base) and for every run of \<open>mutate\<close> that returns one, the anchors list of the
  result is the anchors list of the parent, and for every index \<open>i\<close> of that list the team
  entry read at \<open>i\<close> in the result is the one read at \<open>i\<close> in the parent (both
  \<open>undefined\<close> when \<open>i\<close> is out of range). Nothing is assumed of the parents: their teams
  may have any length and any entries.
\<close>

theorem anchors_never_altered:
  "(fst (crossover parent1 parent2 mode g) = Inr child
      \<longrightarrow> anchors child = anchors parent1
          \<and> (\<forall>i\<in>set (anchors parent1). js_get (team child) i = js_get (team parent1) i))
   \<and> (fst (mutate c pool rate mode' g') = Inr mutated
      \<longrightarrow> anchors mutated = anchors c
          \<and> (\<forall>i\<in>set (anchors c). js_get (team mutated) i = js_get (team c) i))"
  using crossover_frame [of parent1 parent2 mode g child]
    mutate_frame [of c pool rate mode' g' mutated]
  by blast

text \<open>
  The theorem at a crossover that copies parent 2's last entry and at a mutation that
  replaces the last entry, the anchor being at index 0.
\<close>

theorem anchors_never_altered_witness:
  "fst (crossover
          \<lparr>team = [Str ''abra'', Str ''onix'', Str ''muk''], anchors = [0], fitness = 0\<rparr>
          \<lparr>team = [Str ''seel'', Str ''jynx'', Str ''ekans''], anchors = [0], fitness = 0\<rparr>
          GBL (\<lambda>_. rand_half))
     = Inr \<lparr>team = [Str ''abra'', Str ''onix'', Str ''ekans''], anchors = [0], fitness = 0\<rparr>
   \<and> anchors \<lparr>team = [Str ''abra'', Str ''onix'', Str ''ekans''], anchors = [0], fitness = (0::real)\<rparr>
       = anchors \<lparr>team = [Str ''abra'', Str ''onix'', Str ''muk''], anchors = [0], fitness = (0::real)\<rparr>
   \<and> js_get [Str ''abra'', Str ''onix'', Str ''ekans''] 0
       = js_get [Str ''abra'', Str ''onix'', Str ''muk''] 0
   \<and> fst (mutate
          \<lparr>team = [Str ''abra'', Str ''onix'', Str ''muk''], anchors = [0], fitness = 0\<rparr>
          [''abra_shadow'', ''seel''] 1 GBL (\<lambda>_. rand_half))
     = Inr \<lparr>team = [Str ''abra'', Str ''onix'', Str ''seel''], anchors = [0], fitness = 0\<rparr>
   \<and> js_get [Str ''abra'', Str ''onix'', Str ''seel''] 0
       = js_get [Str ''abra'', Str ''onix'', Str ''muk''] 0"
proof -
  let ?p1 = "\<lparr>team = [Str ''abra'', Str ''onix'', Str ''muk''], anchors = [0], fitness = 0\<rparr>"
  let ?p2 = "\<lparr>team = [Str ''seel'', Str ''jynx'', Str ''ekans''], anchors = [0], fitness = 0\<rparr>"
  let ?ch = "\<lparr>team = [Str ''abra'', Str ''onix'', Str ''ekans''], anchors = [0], fitness = 0\<rparr>"
  let ?mu = "\<lparr>team = [Str ''abra'', Str ''onix'', Str ''seel''], anchors = [0], fitness = 0\<rparr>"
  have run: "fst (crossover ?p1 ?p2 GBL (\<lambda>_. rand_half)) = Inr ?ch"
    by (simp add: eval_defs)
  have run': "fst (mutate ?p1 [''abra_shadow'', ''seel''] 1 GBL (\<lambda>_. rand_half)) = Inr ?mu"
    by (simp add: eval_defs)
  from anchors_never_altered
         [of ?p1 ?p2 GBL "\<lambda>_. rand_half" ?ch ?p1 "[''abra_shadow'', ''seel'']" 1 GBL
             "\<lambda>_. rand_half" ?mu]
       run run'
  show ?thesis by simp
qed

subsection \<open>C3\<close>

text \<open>
  Claim C3, as amended. For every pair of parents valid for the mode and every crossover
  point, the three passes of \<open>crossover\<close> over the slots assemble a team of the mode's
  length without raising. That team need not satisfy base-species uniqueness: an entry of
  parent 1 kept at or after the cut is not recorded as used, and an entry copied from
  parent 2 at another slot may share its base species. When the team fails
  \<open>validateTeamUniqueness\<close> the final check discards it and \<open>crossover\<close> returns a clone of
  parent 1; otherwise it returns the child with that team. In both cases the chromosome
  returned satisfies uniqueness.
\<close>

theorem crossover_final_check:
  assumes "isValidChromosome parent1 mode = Inr True" "dense (team parent1)"
    and "isValidChromosome parent2 mode = Inr True" "dense (team parent2)"
  shows "\<exists>t unique.
           assembleChild (cloneChromosome parent1) parent2 (teamSizeOf mode)
             (getMutableSlots (cloneChromosome parent1) (teamSizeOf mode)) crossoverPoint = Inr t
           \<and> length t = teamSizeOf mode
           \<and> validateTeamUniqueness t = Inr unique
           \<and> crossoverAt parent1 parent2 mode crossoverPoint =
               Inr (if unique then (cloneChromosome parent1)\<lparr>team := t\<rparr>
                    else cloneChromosome parent1)
           \<and> (\<exists>child. crossoverAt parent1 parent2 mode crossoverPoint = Inr child
                 \<and> validateTeamUniqueness (team child) = Inr True)"
proof -
  from crossoverAt_cases [OF assms, of crossoverPoint] obtain t unique where
    t: "assembleChild (cloneChromosome parent1) parent2 (teamSizeOf mode)
                (getMutableSlots (cloneChromosome parent1) (teamSizeOf mode)) crossoverPoint = Inr t"
       "length t = teamSizeOf mode"
       "validateTeamUniqueness t = Inr unique"
       "crossoverAt parent1 parent2 mode crossoverPoint =
                Inr (if unique then (cloneChromosome parent1)\<lparr>team := t\<rparr>
                     else cloneChromosome parent1)"
    by blast
  have "validateTeamUniqueness (team (if unique
          then (cloneChromosome parent1)\<lparr>team := t\<rparr> else cloneChromosome parent1)) = Inr True"
    using isValidChromosome_unique [OF assms(1)] assms(2) t(3)
    by (simp add: dense_js_spread)
  with t show ?thesis by auto
qed

text \<open>
  The theorem at two valid parents and the cut at slot 1, where the clone of parent 1 is
  returned.
\<close>

theorem crossover_final_check_witness:
  "isValidChromosome \<lparr>team = [Str ''abra'', Str ''onix'', Str ''muk''], anchors = [], fitness = 0\<rparr> GBL
     = Inr True
   \<and> dense [Str ''abra'', Str ''onix'', Str ''muk'']
   \<and> isValidChromosome \<lparr>team = [Str ''seel'', Str ''muk_shadow'', Str ''abra''], anchors = [], fitness = 0\<rparr> GBL
     = Inr True
   \<and> dense [Str ''seel'', Str ''muk_shadow'', Str ''abra'']
   \<and> (\<exists>child. crossoverAt
        \<lparr>team = [Str ''abra'', Str ''onix'', Str ''muk''], anchors = [], fitness = 0\<rparr>
        \<lparr>team = [Str ''seel'', Str ''muk_shadow'', Str ''abra''], anchors = [], fitness = 0\<rparr>
        GBL 1 = Inr child \<and> validateTeamUniqueness (team child) = Inr True)"
proof -
  let ?p1 = "\<lparr>team = [Str ''abra'', Str ''onix'', Str ''muk''], anchors = [], fitness = 0\<rparr>"
  let ?p2 = "\<lparr>team = [Str ''seel'', Str ''muk_shadow'', Str ''abra''], anchors = [], fitness = 0\<rparr>"
  have h: "isValidChromosome ?p1 GBL = Inr True" "dense (team ?p1)"
    "isValidChromosome ?p2 GBL = Inr True" "dense (team ?p2)"
    by (simp_all add: isValidChromosome_def validateTeamUniqueness_def teamSizeOf_def dense_def
          getBaseSpecies_def)
  from crossover_final_check [OF h, of 1] h show ?thesis by auto
qed

text \<open>
  The claim as first stated, that the assembled team always satisfies uniqueness and the
  fallback is never executed, fails: with parent 1 \<open>abra, onix, muk\<close>, parent 2
  \<open>seel, muk_shadow, abra\<close>, no anchor and the cut at slot 1, slot 1 receives
  \<open>muk_shadow\<close>, slot 2 keeps \<open>muk\<close> because \<open>abra\<close> is used, and the final check rejects
  the team \<open>abra, muk_shadow, muk\<close>. The random source that yields 0.5 chooses that cut.
\<close>

theorem crossover_fallback_reached:
  "isValidChromosome \<lparr>team = [Str ''abra'', Str ''onix'', Str ''muk''], anchors = [], fitness = 0\<rparr> GBL
     = Inr True
   \<and> isValidChromosome \<lparr>team = [Str ''seel'', Str ''muk_shadow'', Str ''abra''], anchors = [], fitness = 0\<rparr> GBL
     = Inr True
   \<and> getMutableSlots
        (cloneChromosome \<lparr>team = [Str ''abra'', Str ''onix'', Str ''muk''], anchors = [], fitness = 0\<rparr>) 3
       = [0, 1, 2]
   \<and> assembleChild
        (cloneChromosome \<lparr>team = [Str ''abra'', Str ''onix'', Str ''muk''], anchors = [], fitness = 0\<rparr>)
        \<lparr>team = [Str ''seel'', Str ''muk_shadow'', Str ''abra''], anchors = [], fitness = 0\<rparr>
        3 [0, 1, 2] 1
       = Inr [Str ''abra'', Str ''muk_shadow'', Str ''muk'']
   \<and> validateTeamUniqueness [Str ''abra'', Str ''muk_shadow'', Str ''muk''] = Inr False
   \<and> crossoverAt
        \<lparr>team = [Str ''abra'', Str ''onix'', Str ''muk''], anchors = [], fitness = 0\<rparr>
        \<lparr>team = [Str ''seel'', Str ''muk_shadow'', Str ''abra''], anchors = [], fitness = 0\<rparr>
        GBL 1
       = Inr (cloneChromosome
           \<lparr>team = [Str ''abra'', Str ''onix'', Str ''muk''], anchors = [], fitness = 0\<rparr>)
   \<and> fst (crossover
        \<lparr>team = [Str ''abra'', Str ''onix'', Str ''muk''], anchors = [], fitness = 0\<rparr>
        \<lparr>team = [Str ''seel'', Str ''muk_shadow'', Str ''abra''], anchors = [], fitness = 0\<rparr>
        GBL (\<lambda>_. rand_half))
       = Inr \<lparr>team = [Str ''abra'', Str ''onix'', Str ''muk''], anchors = [], fitness = 0\<rparr>"
  by (simp add: eval_defs)

subsection \<open>C4\<close>

text \<open>
  Claim C4 fails on the code. For the empty team \<open>calculateSurpriseFactor\<close> and
  \<open>calculateConsistency\<close> divide zero by the team length zero and return \<open>NaN\<close>, not zero:
  they lack the guard for the empty team that the other components have. In GBL mode
  \<open>calculateFitness\<close> adds \<open>NaN * 0.15\<close>, in PlayPokemon mode \<open>NaN * 0.1\<close>, and returns
  \<open>NaN\<close> whatever the other components return and whatever the anchors are.
\<close>

theorem empty_team_fitness_is_NaN:
  "calculateSurpriseFactor rk [] = NaN
   \<and> calculateConsistency rk [] = NaN
   \<and> calculateFitness sc rk \<lparr>team = [], anchors = a, fitness = f\<rparr> GBL = NaN
   \<and> calculateFitness sc rk \<lparr>team = [], anchors = a, fitness = f\<rparr> PlayPokemon = NaN"
proof -
  have s: "calculateSurpriseFactor rk [] = NaN"
    by (simp add: calculateSurpriseFactor_def inf_of_sign_def Math_min_def)
  have c: "calculateConsistency rk [] = NaN"
    by (simp add: calculateConsistency_def inf_of_sign_def)
  show ?thesis by (simp add: calculateFitness_def Let_def s c)
qed

subsection \<open>C5\<close>

text \<open>
  Claim C5 fails on the code for \<open>calculateDiversity\<close>: \<open>c.team.sort()\<close> sorts the team
  array of every chromosome of the population in place. The population with the single
  chromosome \<open>onix, abra, muk\<close>, anchored at index 0, is left with the team
  \<open>abra, muk, onix\<close>: the anchor index 0 now names \<open>abra\<close>. (\<open>sortByFitness\<close>,
  \<open>getBestChromosome\<close>, \<open>getWorstChromosome\<close> and \<open>hasConverged\<close> sort a copy of the
  population array and write nothing: they are functions of the population alone.)
\<close>

theorem calculateDiversity_sorts_teams_in_place:
  "calculateDiversity
     [\<lparr>team = [Str ''onix'', Str ''abra'', Str ''muk''], anchors = [0], fitness = 0\<rparr>]
   = (Number 1,
      [\<lparr>team = [Str ''abra'', Str ''muk'', Str ''onix''], anchors = [0], fitness = 0\<rparr>])"
  by (simp add: calculateDiversity_def js_sort_strings_def List.map_filter_def)

subsection \<open>C6\<close>

text \<open>
  Claim C6 fails on the code for the \<open>calculateEffectiveness\<close> of
  \<open>src/lib/coverage/typeChart.ts\<close>, the one the fitness function and the chromosome
  construction import: it returns the product of the chart entries as the doubles give it,
  without the rounding to six decimal places that the function of the same name in
  \<open>src/unnamed/part_002\<close> applies. With the chart entry \<open>1.6\<close> for \<open>fire\<close> against \<open>grass\<close>
  and against \<open>bug\<close>, \<open>calculateEffectiveness('fire', ['grass', 'bug'])\<close> returns the double
  \<open>5764607523034236 \<times> 2\<^sup>-\<^sup>5\<^sup>1\<close>, which is \<open>1441151880758559 / 562949953421312\<close> and prints as
  \<open>2.5600000000000005\<close>. On the same chart the version of \<open>src/unnamed/part_002\<close> returns
  the double of the literal \<open>2.56\<close>, \<open>5764607523034235 \<times> 2\<^sup>-\<^sup>5\<^sup>1\<close>, the product rounded to six
  decimal places.
\<close>

theorem calculateEffectiveness_not_rounded:
  "calculateEffectiveness
     (\<lambda>a d. if a = ''fire'' \<and> (d = ''grass'' \<or> d = ''bug'') then Entry (fl False 16 10)
             else Absent)
     ''fire'' [''grass'', ''bug''] = Inr (Finite False 5764607523034236 (- 51))
   \<and> valueOf (Finite False 5764607523034236 (- 51))
       = Number (1441151880758559 / 562949953421312)
   \<and> calculateEffectiveness_rounded
     (\<lambda>a d. if a = ''fire'' \<and> (d = ''grass'' \<or> d = ''bug'') then Entry (fl False 16 10)
             else Absent)
     [''grass'', ''bug''] ''fire'' = Inr (fl False 256 100)
   \<and> fl False 256 100 = Finite False 5764607523034235 (- 51)"
proof -
  let ?chart = "\<lambda>a d. if a = ''fire'' \<and> (d = ''grass'' \<or> d = ''bug'') then Entry (fl False 16 10)
                       else Absent"
  have lower: "toLowerCase ''fire'' = ''fire''" "toLowerCase ''grass'' = ''grass''"
    "toLowerCase ''bug'' = ''bug''"
    by (simp_all add: toLowerCase_def)
  have product: "calculateEffectiveness ?chart ''fire'' [''grass'', ''bug'']
      = Inr (Finite False 5764607523034236 (- 51))"
    by (simp add: calculateEffectiveness_def lower dmul_1_1_6 dmul_1_6_1_6 del: One_nat_def)
  have rounded: "calculateEffectiveness_rounded ?chart [''grass'', ''bug''] ''fire''
      = Inr (fl False 256 100)"
    unfolding calculateEffectiveness_rounded_eq product
    by (simp add: round_six_decimals literal_2_56 del: One_nat_def)
  have "valueOf (Finite False 5764607523034236 (- 51))
      = Number (1441151880758559 / 562949953421312)"
    by simp
  with product rounded literal_2_56 show ?thesis
    by (intro conjI)
qed

subsection \<open>C7\<close>

text \<open>
  Claim C7, as amended. For every multiplier \<open>m\<close>: if \<open>m = 1.0\<close> then
  \<open>getEffectivenessCategory\<close> returns \<open>Neutral\<close>; if \<open>m \<ge> 1.6\<close> it returns
  \<open>Super Effective\<close> or \<open>Double Super Effective\<close>; if \<open>0.39 \<le> m < 0.625\<close> it returns
  \<open>Resisted\<close>; and if \<open>0.625 \<le> m < 1.0\<close>, so at \<open>m = 0.625\<close>, it returns
  \<open>Not Very Effective\<close>.
\<close>

theorem getEffectivenessCategory_boundaries:
  "(js_eq m (Number 1.0) \<longrightarrow> getEffectivenessCategory m = ''Neutral'')
   \<and> (js_ge m (Number 1.6) \<longrightarrow>
        getEffectivenessCategory m = ''Super Effective''
        \<or> getEffectivenessCategory m = ''Double Super Effective'')
   \<and> (js_ge m (Number 0.39) \<and> js_lt m (Number 0.625) \<longrightarrow>
        getEffectivenessCategory m = ''Resisted'')
   \<and> (js_ge m (Number 0.625) \<and> js_lt m (Number 1.0) \<longrightarrow>
        getEffectivenessCategory m = ''Not Very Effective'')"
  by (cases m) (auto simp: getEffectivenessCategory_def js_ge_def js_gt_def js_eq_def)

text \<open>
  The theorem at the multipliers \<open>1\<close>, \<open>2.56\<close>, \<open>1.6\<close>, \<open>0.39\<close> and \<open>0.625\<close>.
\<close>

theorem getEffectivenessCategory_boundaries_witness:
  "js_eq (Number 1) (Number 1.0) \<and> getEffectivenessCategory (Number 1) = ''Neutral''
   \<and> js_ge (Number 2.56) (Number 1.6)
   \<and> (getEffectivenessCategory (Number 2.56) = ''Super Effective''
        \<or> getEffectivenessCategory (Number 2.56) = ''Double Super Effective'')
   \<and> js_ge (Number 1.6) (Number 1.6)
   \<and> (getEffectivenessCategory (Number 1.6) = ''Super Effective''
        \<or> getEffectivenessCategory (Number 1.6) = ''Double Super Effective'')
   \<and> js_ge (Number 0.39) (Number 0.39) \<and> js_lt (Number 0.39) (Number 0.625)
   \<and> getEffectivenessCategory (Number 0.39) = ''Resisted''
   \<and> js_ge (Number 0.625) (Number 0.625) \<and> js_lt (Number 0.625) (Number 1.0)
   \<and> getEffectivenessCategory (Number 0.625) = ''Not Very Effective''"
proof -
  have h: "js_eq (Number 1) (Number 1.0)" "js_ge (Number 2.56) (Number 1.6)"
    "js_ge (Number 1.6) (Number 1.6)"
    "js_ge (Number 0.39) (Number 0.39) \<and> js_lt (Number 0.39) (Number 0.625)"
    "js_ge (Number 0.625) (Number 0.625) \<and> js_lt (Number 0.625) (Number 1.0)"
    by (simp_all add: js_ge_def js_eq_def)
  have neutral: "getEffectivenessCategory (Number 1) = ''Neutral''"
    using getEffectivenessCategory_boundaries [of "Number 1", THEN conjunct1] h(1)
    by (rule mp)
  have super: "getEffectivenessCategory (Number 2.56) = ''Super Effective''
        \<or> getEffectivenessCategory (Number 2.56) = ''Double Super Effective''"
    using getEffectivenessCategory_boundaries [of "Number 2.56", THEN conjunct2, THEN conjunct1]
      h(2)
    by (rule mp)
  have super': "getEffectivenessCategory (Number 1.6) = ''Super Effective''
        \<or> getEffectivenessCategory (Number 1.6) = ''Double Super Effective''"
    using getEffectivenessCategory_boundaries [of "Number 1.6", THEN conjunct2, THEN conjunct1]
      h(3)
    by (rule mp)
  have resisted: "getEffectivenessCategory (Number 0.39) = ''Resisted''"
    using getEffectivenessCategory_boundaries
            [of "Number 0.39", THEN conjunct2, THEN conjunct2, THEN conjunct1] h(4)
    by (rule mp)
  have weak: "getEffectivenessCategory (Number 0.625) = ''Not Very Effective''"
    using getEffectivenessCategory_boundaries
            [of "Number 0.625", THEN conjunct2, THEN conjunct2, THEN conjunct2] h(5)
    by (rule mp)
  show ?thesis
    by (intro conjI neutral super super' resisted weak h(1) h(2) h(3)
          h(4) [THEN conjunct1] h(4) [THEN conjunct2] h(5) [THEN conjunct1] h(5) [THEN conjunct2])
qed

text \<open>
  The claim as first stated gives \<open>Resisted\<close> on the whole of \<open>0.39 \<le> m \<le> 0.625\<close>; at
  \<open>m = 0.625\<close> the test \<open>multiplier >= 0.625\<close> comes first and the result is
  \<open>Not Very Effective\<close>.
\<close>

theorem category_at_single_resistance:
  "js_ge (Number 0.625) (Number 0.39) \<and> js_ge (Number 0.625) (Number 0.625)
   \<and> getEffectivenessCategory (Number 0.625) = ''Not Very Effective''
   \<and> getEffectivenessCategory (Number 0.625) \<noteq> ''Resisted''"
  by (simp add: getEffectivenessCategory_def js_ge_def js_gt_def js_eq_def)

subsection \<open>C8\<close>

text \<open>
  Claim C8. For every population and every options record whose \<open>eliteCount\<close> is an
  integer \<open>e\<close> with \<open>0 \<le> e \<le> n\<close>, \<open>n\<close> the population size: when
  \<open>createNextGeneration\<close> returns a list, its first \<open>e\<close> chromosomes are the clones of the
  first \<open>e\<close> chromosomes of the population sorted descending by fitness; a clone has the
  anchors and the fitness of its original and the same team, entry for entry, and is equal
  to it when the team of the original has no empty slot, as every team of strings. When
  every chromosome of the population is valid for the mode, \<open>createNextGeneration\<close> does
  return such a list, whatever the random source yields, and its first \<open>e\<close> chromosomes
  are equal to those of the sorted population.
\<close>

theorem elites_lead_next_generation:
  "(createNextGeneration population pool mode opts g = Inr nextGeneration
      \<and> eliteCount opts = Some e \<and> 0 \<le> e \<and> e \<le> int (length population)
    \<longrightarrow> take (nat e) nextGeneration
          = map cloneChromosome (take (nat e) (sortByFitness population))
        \<and> ((\<forall>c\<in>set population. Hole \<notin> set (team c))
           \<longrightarrow> take (nat e) nextGeneration = take (nat e) (sortByFitness population)))
   \<and> ((\<forall>c\<in>set population'. isValidChromosome c mode' = Inr True \<and> dense (team c))
      \<and> eliteCount opts' = Some e' \<and> 0 \<le> e' \<and> e' \<le> int (length population')
    \<longrightarrow> (\<exists>nextGeneration.
           createNextGeneration population' pool' mode' opts' g' = Inr nextGeneration
           \<and> take (nat e') nextGeneration = take (nat e') (sortByFitness population')))"
proof -
  have key: "take (nat e) out = map cloneChromosome (take (nat e) (sortByFitness p))"
    if "createNextGeneration p pl m ops gg = Inr out" "eliteCount ops = Some e" "0 \<le> e"
      "e \<le> int (length p)" for p pl m ops gg out e
  proof -
    let ?elites = "selectElites p e"
    have el: "?elites = map cloneChromosome (take (nat e) (sortByFitness p))"
      using that(3) by (rule selectElites_take)
    have len: "length ?elites = nat e" using that(4) by (simp add: el sortByFitness_def)
    from that(1,2) obtain cr mr where "fillGeneration p pl m cr mr ?elites gg = Inr out"
      by (auto simp: createNextGeneration_def Let_def)
    from fillGeneration_result [OF this length_selectElites]
    have "take (length ?elites) out = ?elites" by simp
    then have "take (nat e) out = ?elites" by (simp only: len)
    then show ?thesis by (simp only: el)
  qed
  have same: "map cloneChromosome (take n (sortByFitness p)) = take n (sortByFitness p)"
    if "\<forall>c\<in>set p. Hole \<notin> set (team c)" for p n
    using that by (intro map_cloneChromosome_id) (auto dest: in_set_takeD)
  show ?thesis
  proof (intro conjI impI)
    assume a: "createNextGeneration population pool mode opts g = Inr nextGeneration
      \<and> eliteCount opts = Some e \<and> 0 \<le> e \<and> e \<le> int (length population)"
    then show "take (nat e) nextGeneration
          = map cloneChromosome (take (nat e) (sortByFitness population))"
      using key by blast
    assume "\<forall>c\<in>set population. Hole \<notin> set (team c)"
    with a show "take (nat e) nextGeneration = take (nat e) (sortByFitness population)"
      using key [of population pool mode opts g nextGeneration e] same [of population "nat e"]
      by simp
  next
    assume a: "(\<forall>c\<in>set population'. isValidChromosome c mode' = Inr True \<and> dense (team c))
      \<and> eliteCount opts' = Some e' \<and> 0 \<le> e' \<and> e' \<le> int (length population')"
    then obtain out where out: "createNextGeneration population' pool' mode' opts' g' = Inr out"
      using fillGeneration_returns [of population' mode']
      unfolding createNextGeneration_def Let_def by blast
    from a have "\<forall>c\<in>set population'. Hole \<notin> set (team c)" by (auto simp: dense_def)
    with a out key [of population' pool' mode' opts' g' out e'] same [of population' "nat e'"]
    show "\<exists>nextGeneration.
           createNextGeneration population' pool' mode' opts' g' = Inr nextGeneration
           \<and> take (nat e') nextGeneration = take (nat e') (sortByFitness population')"
      by simp
  qed
qed

text \<open>
  The theorem at a GBL population of three chromosomes with two elites.
\<close>

theorem elites_lead_next_generation_witness:
  "createNextGeneration
     [\<lparr>team = [Str ''abra'', Str ''onix'', Str ''muk''], anchors = [], fitness = 1\<rparr>,
      \<lparr>team = [Str ''seel'', Str ''muk_shadow'', Str ''abra''], anchors = [], fitness = 3\<rparr>,
      \<lparr>team = [Str ''jynx'', Str ''onix'', Str ''ekans''], anchors = [], fitness = 2\<rparr>]
     [''abra_shadow'', ''jynx''] GBL \<lparr>eliteCount = Some 2, crossoverRate = None, mutationRate = None\<rparr> (\<lambda>_. rand_zero)
   = Inr [\<lparr>team = [Str ''seel'', Str ''muk_shadow'', Str ''abra''], anchors = [], fitness = 3\<rparr>,
      \<lparr>team = [Str ''jynx'', Str ''onix'', Str ''ekans''], anchors = [], fitness = 2\<rparr>,
      \<lparr>team = [Str ''jynx'', Str ''onix'', Str ''muk''], anchors = [], fitness = 1\<rparr>]
   \<and> eliteCount \<lparr>eliteCount = Some 2, crossoverRate = None, mutationRate = None\<rparr> = Some 2
   \<and> (0::int) \<le> 2
   \<and> 2 \<le> int (length
     [\<lparr>team = [Str ''abra'', Str ''onix'', Str ''muk''], anchors = [], fitness = 1\<rparr>,
      \<lparr>team = [Str ''seel'', Str ''muk_shadow'', Str ''abra''], anchors = [], fitness = 3\<rparr>,
      \<lparr>team = [Str ''jynx'', Str ''onix'', Str ''ekans''], anchors = [], fitness = 2\<rparr>])
   \<and> take (nat 2)
       [\<lparr>team = [Str ''seel'', Str ''muk_shadow'', Str ''abra''], anchors = [], fitness = 3\<rparr>,
      \<lparr>team = [Str ''jynx'', Str ''onix'', Str ''ekans''], anchors = [], fitness = 2\<rparr>,
      \<lparr>team = [Str ''jynx'', Str ''onix'', Str ''muk''], anchors = [], fitness = 1\<rparr>]
     = take (nat 2) (sortByFitness
     [\<lparr>team = [Str ''abra'', Str ''onix'', Str ''muk''], anchors = [], fitness = 1\<rparr>,
      \<lparr>team = [Str ''seel'', Str ''muk_shadow'', Str ''abra''], anchors = [], fitness = 3\<rparr>,
      \<lparr>team = [Str ''jynx'', Str ''onix'', Str ''ekans''], anchors = [], fitness = 2\<rparr>])
   \<and> isValidChromosome
        \<lparr>team = [Str ''abra'', Str ''onix'', Str ''muk''], anchors = [], fitness = 1\<rparr> GBL = Inr True
   \<and> dense [Str ''abra'', Str ''onix'', Str ''muk'']
   \<and> isValidChromosome
        \<lparr>team = [Str ''seel'', Str ''muk_shadow'', Str ''abra''], anchors = [], fitness = 3\<rparr> GBL
       = Inr True
   \<and> dense [Str ''seel'', Str ''muk_shadow'', Str ''abra'']
   \<and> isValidChromosome
        \<lparr>team = [Str ''jynx'', Str ''onix'', Str ''ekans''], anchors = [], fitness = 2\<rparr> GBL = Inr True
   \<and> dense [Str ''jynx'', Str ''onix'', Str ''ekans'']
   \<and> (\<exists>nextGeneration. createNextGeneration
     [\<lparr>team = [Str ''abra'', Str ''onix'', Str ''muk''], anchors = [], fitness = 1\<rparr>,
      \<lparr>team = [Str ''seel'', Str ''muk_shadow'', Str ''abra''], anchors = [], fitness = 3\<rparr>,
      \<lparr>team = [Str ''jynx'', Str ''onix'', Str ''ekans''], anchors = [], fitness = 2\<rparr>]
     [''abra_shadow'', ''jynx''] GBL \<lparr>eliteCount = Some 2, crossoverRate = None, mutationRate = None\<rparr> (\<lambda>_. rand_half)
        = Inr nextGeneration
      \<and> take (nat 2) nextGeneration = take (nat 2) (sortByFitness
     [\<lparr>team = [Str ''abra'', Str ''onix'', Str ''muk''], anchors = [], fitness = 1\<rparr>,
      \<lparr>team = [Str ''seel'', Str ''muk_shadow'', Str ''abra''], anchors = [], fitness = 3\<rparr>,
      \<lparr>team = [Str ''jynx'', Str ''onix'', Str ''ekans''], anchors = [], fitness = 2\<rparr>]))"
proof -
  let ?pop = "[\<lparr>team = [Str ''abra'', Str ''onix'', Str ''muk''], anchors = [], fitness = 1\<rparr>,
      \<lparr>team = [Str ''seel'', Str ''muk_shadow'', Str ''abra''], anchors = [], fitness = 3\<rparr>,
      \<lparr>team = [Str ''jynx'', Str ''onix'', Str ''ekans''], anchors = [], fitness = 2\<rparr>]"
  let ?opts = "\<lparr>eliteCount = Some 2, crossoverRate = None, mutationRate = None\<rparr>"
  let ?out = "[\<lparr>team = [Str ''seel'', Str ''muk_shadow'', Str ''abra''], anchors = [], fitness = 3\<rparr>,
      \<lparr>team = [Str ''jynx'', Str ''onix'', Str ''ekans''], anchors = [], fitness = 2\<rparr>,
      \<lparr>team = [Str ''jynx'', Str ''onix'', Str ''muk''], anchors = [], fitness = 1\<rparr>]"
  have run: "createNextGeneration ?pop [''abra_shadow'', ''jynx''] GBL ?opts (\<lambda>_. rand_zero) = Inr ?out"
    by (simp add: createNextGeneration_def selectElites_def js_slice0_def fillGeneration.simps
        tournamentSelection_def numeral_3_eq_3 eval_defs)
  have valid: "\<forall>c\<in>set ?pop. isValidChromosome c GBL = Inr True \<and> dense (team c)"
    by (simp add: isValidChromosome_def validateTeamUniqueness_def teamSizeOf_def dense_def
          getBaseSpecies_def)
  then have nohole: "\<forall>c\<in>set ?pop. Hole \<notin> set (team c)"
    unfolding dense_def by blast
  have e: "eliteCount ?opts = Some 2 \<and> (0::int) \<le> 2 \<and> 2 \<le> int (length ?pop)"
    by simp
  from elites_lead_next_generation
         [of ?pop "[''abra_shadow'', ''jynx'']" GBL ?opts "\<lambda>_. rand_zero" ?out 2
             ?pop GBL ?opts 2 "[''abra_shadow'', ''jynx'']" "\<lambda>_. rand_half"]
       run valid nohole e
  have first: "take (nat 2) ?out = take (nat 2) (sortByFitness ?pop)"
    and second: "\<exists>nextGeneration.
        createNextGeneration ?pop [''abra_shadow'', ''jynx''] GBL ?opts (\<lambda>_. rand_half)
          = Inr nextGeneration
        \<and> take (nat 2) nextGeneration = take (nat 2) (sortByFitness ?pop)"
    by blast+
  show ?thesis
    by (intro conjI run first second)
       (simp_all add: isValidChromosome_def validateTeamUniqueness_def teamSizeOf_def dense_def
          getBaseSpecies_def)
qed

subsection \<open>C9\<close>

text \<open>
  Claim C9. For every population, pool, mode, options record and random source, a list
  returned by \<open>createNextGeneration\<close> has the length of the input population; and when
  every chromosome of the population is valid for the mode, \<open>createNextGeneration\<close> does
  return a list. The loop ends because every iteration appends one child
  (\<open>fillGeneration\<close> is defined with that measure).
\<close>

theorem createNextGeneration_length:
  "(createNextGeneration population pool mode opts g = Inr nextGeneration
      \<longrightarrow> length nextGeneration = length population)
   \<and> ((\<forall>c\<in>set population'. isValidChromosome c mode' = Inr True \<and> dense (team c))
      \<longrightarrow> (\<exists>nextGeneration.
             createNextGeneration population' pool' mode' opts' g' = Inr nextGeneration
             \<and> length nextGeneration = length population'))"
proof (intro conjI impI)
  assume "createNextGeneration population pool mode opts g = Inr nextGeneration"
  then show "length nextGeneration = length population"
    by (auto simp: createNextGeneration_def Let_def length_selectElites
          dest!: fillGeneration_result)
next
  assume "\<forall>c\<in>set population'. isValidChromosome c mode' = Inr True \<and> dense (team c)"
  from fillGeneration_returns [OF this]
  show "\<exists>nextGeneration.
          createNextGeneration population' pool' mode' opts' g' = Inr nextGeneration
          \<and> length nextGeneration = length population'"
    unfolding createNextGeneration_def Let_def
    by (metis append_Nil fillGeneration_result length_selectElites)
qed

text \<open>
  The theorem at a GBL population of two chromosomes with one elite.
\<close>

theorem createNextGeneration_length_witness:
  "createNextGeneration
     [\<lparr>team = [Str ''abra'', Str ''onix'', Str ''muk''], anchors = [0], fitness = 1\<rparr>,
      \<lparr>team = [Str ''seel'', Str ''muk_shadow'', Str ''abra''], anchors = [0], fitness = 2\<rparr>]
     [''abra_shadow'', ''jynx''] GBL \<lparr>eliteCount = Some 1, crossoverRate = None, mutationRate = None\<rparr> (\<lambda>_. rand_zero)
   = Inr [\<lparr>team = [Str ''seel'', Str ''muk_shadow'', Str ''abra''], anchors = [0], fitness = 2\<rparr>,
      \<lparr>team = [Str ''abra'', Str ''jynx'', Str ''muk''], anchors = [0], fitness = 1\<rparr>]
   \<and> length
       [\<lparr>team = [Str ''seel'', Str ''muk_shadow'', Str ''abra''], anchors = [0], fitness = 2\<rparr>,
      \<lparr>team = [Str ''abra'', Str ''jynx'', Str ''muk''], anchors = [0], fitness = 1\<rparr>]
     = length
     [\<lparr>team = [Str ''abra'', Str ''onix'', Str ''muk''], anchors = [0], fitness = 1\<rparr>,
      \<lparr>team = [Str ''seel'', Str ''muk_shadow'', Str ''abra''], anchors = [0], fitness = 2\<rparr>]
   \<and> isValidChromosome
        \<lparr>team = [Str ''abra'', Str ''onix'', Str ''muk''], anchors = [0], fitness = 1\<rparr> GBL = Inr True
   \<and> dense [Str ''abra'', Str ''onix'', Str ''muk'']
   \<and> isValidChromosome
        \<lparr>team = [Str ''seel'', Str ''muk_shadow'', Str ''abra''], anchors = [0], fitness = 2\<rparr> GBL
       = Inr True
   \<and> dense [Str ''seel'', Str ''muk_shadow'', Str ''abra'']
   \<and> (\<exists>nextGeneration. createNextGeneration
     [\<lparr>team = [Str ''abra'', Str ''onix'', Str ''muk''], anchors = [0], fitness = 1\<rparr>,
      \<lparr>team = [Str ''seel'', Str ''muk_shadow'', Str ''abra''], anchors = [0], fitness = 2\<rparr>]
     [''abra_shadow'', ''jynx''] GBL \<lparr>eliteCount = Some 1, crossoverRate = None, mutationRate = None\<rparr> (\<lambda>_. rand_half)
      = Inr nextGeneration \<and> length nextGeneration = 2)"
proof -
  let ?pop = "[\<lparr>team = [Str ''abra'', Str ''onix'', Str ''muk''], anchors = [0], fitness = 1\<rparr>,
      \<lparr>team = [Str ''seel'', Str ''muk_shadow'', Str ''abra''], anchors = [0], fitness = 2\<rparr>]"
  let ?opts = "\<lparr>eliteCount = Some 1, crossoverRate = None, mutationRate = None\<rparr>"
  let ?out = "[\<lparr>team = [Str ''seel'', Str ''muk_shadow'', Str ''abra''], anchors = [0], fitness = 2\<rparr>,
      \<lparr>team = [Str ''abra'', Str ''jynx'', Str ''muk''], anchors = [0], fitness = 1\<rparr>]"
  have run: "createNextGeneration ?pop [''abra_shadow'', ''jynx''] GBL ?opts (\<lambda>_. rand_zero) = Inr ?out"
    by (simp add: createNextGeneration_def selectElites_def js_slice0_def fillGeneration.simps
        tournamentSelection_def numeral_3_eq_3 eval_defs)
  have valid: "\<forall>c\<in>set ?pop. isValidChromosome c GBL = Inr True \<and> dense (team c)"
    by (simp add: isValidChromosome_def validateTeamUniqueness_def teamSizeOf_def dense_def
          getBaseSpecies_def)
  from createNextGeneration_length
         [of ?pop "[''abra_shadow'', ''jynx'']" GBL ?opts "\<lambda>_. rand_zero" ?out
             ?pop GBL "[''abra_shadow'', ''jynx'']" ?opts "\<lambda>_. rand_half"]
       run valid
  show ?thesis by (simp add: numeral_2_eq_2)
qed

subsection \<open>C10\<close>




end
